theory Spec2Isabelle
  imports Main "HOL-Library.Sublist"
begin

section \<open>Values and records of the to-do application\<close>

text \<open>
  The records are plain JavaScript objects read back from local storage with
  \<^verbatim>\<open>JSON.parse\<close>. The field \<^verbatim>\<open>done\<close> is tested with strict (in)equality against
  both boolean literals and negated with \<^verbatim>\<open>!\<close>, so its model keeps the values such a
  field can hold: the JSON primitives, and \<^verbatim>\<open>undefined\<close> for a record that lacks the
  field. A JSON number is modelled by an integer (only its being zero or not is ever
  observed here). The other fields have the types with which the application writes
  them: identifiers are the integers of \<^verbatim>\<open>getTime()\<close>, names and texts are strings,
  time stamps are the texts of \<^verbatim>\<open>toJSON()\<close> or \<^verbatim>\<open>null\<close>.
\<close>

datatype jsval = JUndefined | JNull | JBool bool | JNum int | JStr string

text \<open>JavaScript's ToBoolean, as used by the operator \<^verbatim>\<open>!\<close>.\<close>

fun truthy :: "jsval \<Rightarrow> bool" where
  "truthy JUndefined = False"
| "truthy JNull = False"
| "truthy (JBool b) = b"
| "truthy (JNum n) = (n \<noteq> 0)"
| "truthy (JStr s) = (s \<noteq> [])"

text \<open>The operator \<^verbatim>\<open>!\<close>: always a boolean.\<close>

definition js_not :: "jsval \<Rightarrow> jsval" where
  "js_not v = JBool (\<not> truthy v)"

text \<open>
  A \<^verbatim>\<open>Date\<close> object is the number of milliseconds since the epoch; \<^verbatim>\<open>getTime\<close>
  returns that number and \<^verbatim>\<open>toJSON\<close> the ISO-8601 text of the same instant, kept
  here as a tagged instant rather than as characters.
\<close>

datatype date = Date int

datatype timestamp = ISO int

fun getTime :: "date \<Rightarrow> int" where
  "getTime (Date ms) = ms"

fun toJSON :: "date \<Rightarrow> timestamp" where
  "toJSON (Date ms) = ISO ms"

text \<open>
  The system clock: the results of the successive calls of \<^verbatim>\<open>new Date()\<close> still to
  come. A call takes the first reading and leaves the rest.
\<close>

type_synonym clock = "nat \<Rightarrow> date"

definition new_Date :: "clock \<Rightarrow> date \<times> clock" where
  "new_Date c = (c 0, \<lambda>n. c (Suc n))"

text \<open>A to-do list item and a to-do list; \<^verbatim>\<open>null\<close> timestamps are \<open>None\<close>.\<close>

record toDoListItem =
  item_id :: int
  item_created :: timestamp
  item_lastUpdated :: "timestamp option"
  item_text :: string
  item_done :: jsval

record toDoList =
  list_id :: int
  list_created :: timestamp
  lastRenamed :: "timestamp option"
  lastUpdated :: "timestamp option"
  name :: string
  list_done :: jsval
  items :: "toDoListItem list"

text \<open>
  \<^verbatim>\<open>Array.prototype.map\<close> with a callback that, for an element passing the test,
  reads the clock and changes the element with that reading, and returns every other
  element as it is. The elements are visited from left to right.
\<close>

fun map_dated :: "('a \<Rightarrow> bool) \<Rightarrow> (date \<Rightarrow> 'a \<Rightarrow> 'a) \<Rightarrow> 'a list \<Rightarrow> clock \<Rightarrow> 'a list \<times> clock" where
  "map_dated p f [] c = ([], c)"
| "map_dated p f (x # xs) c =
     (if p x
      then (case new_Date c of (d, c') \<Rightarrow>
              (case map_dated p f xs c' of (ys, c'') \<Rightarrow> (f d x # ys, c'')))
      else (case map_dated p f xs c of (ys, c') \<Rightarrow> (x # ys, c')))"

section \<open>The model of the to-do lists (vanilla-to-do-lists.js)\<close>

text \<open>
  What both models share: the array \<^verbatim>\<open>this.toDoLists\<close>, the local storage key
  \<^verbatim>\<open>'toDoLists'\<close> (\<open>None\<close> when the key is absent; serialising and parsing are the
  identity on these records) and the clock. A \<^verbatim>\<open>VanillaToDoListsModel\<close> adds the
  argument of the last call of the callback bound with \<^verbatim>\<open>bindToDoListsChanged\<close>.
\<close>

record storage_state =
  toDoLists :: "toDoList list"
  localStorage :: "toDoList list option"
  clock :: clock

record lists_state = storage_state +
  shownLists :: "toDoList list option"

text \<open>\<^verbatim>\<open>JSON.parse(localStorage.getItem('toDoLists')) || []\<close>\<close>

definition load :: "toDoList list option \<Rightarrow> toDoList list" where
  "load st = (case st of None \<Rightarrow> [] | Some ls \<Rightarrow> ls)"

definition VanillaToDoListsModel :: "toDoList list option \<Rightarrow> clock \<Rightarrow> lists_state" where
  "VanillaToDoListsModel st c =
     \<lparr>toDoLists = load st, localStorage = st, clock = c, shownLists = None\<rparr>"

text \<open>The private methods \<^verbatim>\<open>#store\<close> and \<^verbatim>\<open>#updateView\<close>, called on \<^verbatim>\<open>this.toDoLists\<close>.\<close>

definition store_lists :: "lists_state \<Rightarrow> lists_state" where
  "store_lists s = s\<lparr>localStorage := Some (toDoLists s)\<rparr>"

definition updateView_lists :: "lists_state \<Rightarrow> lists_state" where
  "updateView_lists s = s\<lparr>shownLists := Some (toDoLists s)\<rparr>"

definition createToDoList :: "string \<Rightarrow> lists_state \<Rightarrow> lists_state" where
  "createToDoList toDoListName s =
     (case new_Date (clock s) of (toDoListDateCreated, c') \<Rightarrow>
        updateView_lists (store_lists
          (s\<lparr>toDoLists := toDoLists s @
                [\<lparr>list_id = getTime toDoListDateCreated,
                  list_created = toJSON toDoListDateCreated,
                  lastRenamed = None,
                  lastUpdated = None,
                  name = toDoListName,
                  list_done = JBool False,
                  items = []\<rparr>],
             clock := c'\<rparr>)))"

definition updateToDoList :: "int \<Rightarrow> string \<Rightarrow> lists_state \<Rightarrow> lists_state" where
  "updateToDoList i toDoListNameNew s =
     (case map_dated (\<lambda>l. list_id l = i)
             (\<lambda>d l. l\<lparr>lastRenamed := Some (toJSON d), name := toDoListNameNew\<rparr>)
             (toDoLists s) (clock s) of
        (ls, c') \<Rightarrow> updateView_lists (store_lists (s\<lparr>toDoLists := ls, clock := c'\<rparr>)))"

definition deleteToDoList :: "int \<Rightarrow> lists_state \<Rightarrow> lists_state" where
  "deleteToDoList i s =
     updateView_lists (store_lists
       (s\<lparr>toDoLists := filter (\<lambda>l. list_id l \<noteq> i) (toDoLists s)\<rparr>))"

definition toggleToDoList :: "int \<Rightarrow> lists_state \<Rightarrow> lists_state" where
  "toggleToDoList i s =
     updateView_lists (store_lists
       (s\<lparr>toDoLists :=
            map (\<lambda>l. if list_id l = i then l\<lparr>list_done := js_not (list_done l)\<rparr> else l)
              (toDoLists s)\<rparr>))"

definition toggleAllToDoLists :: "lists_state \<Rightarrow> lists_state" where
  "toggleAllToDoLists s =
     updateView_lists (store_lists
       (s\<lparr>toDoLists := map (\<lambda>l. l\<lparr>list_done := js_not (list_done l)\<rparr>) (toDoLists s)\<rparr>))"

definition clearToDoLists :: "lists_state \<Rightarrow> lists_state" where
  "clearToDoLists s =
     updateView_lists (store_lists
       (s\<lparr>toDoLists := filter (\<lambda>l. list_done l = JBool False) (toDoLists s)\<rparr>))"

section \<open>The model of one to-do list (vanilla-to-do-list.js)\<close>

text \<open>
  \<^verbatim>\<open>this.toDoList\<close> is a reference: either to the element of \<^verbatim>\<open>this.toDoLists\<close> that
  \<^verbatim>\<open>find\<close> returned (the same object, so a write through one is seen through the
  other), kept here as the element's index, or to a fresh object \<^verbatim>\<open>{}\<close> that has no
  field but the \<^verbatim>\<open>items\<close> the constructor gives it. The methods only ever map over
  \<^verbatim>\<open>this.toDoLists\<close>, which keeps every object at its index.
\<close>

datatype toDoList_ref = Stored nat | Fresh "toDoListItem list"

text \<open>The object a reference stands for, as the view receives it.\<close>

datatype toDoList_obj = ListObject toDoList | ItemsOnly "toDoListItem list"

record list_state = storage_state +
  toDoListId :: int
  toDoList :: toDoList_ref
  shownList :: "toDoList_obj option"

text \<open>\<^verbatim>\<open>Array.prototype.find\<close>, returning the position of the element found.\<close>

fun find_index :: "('a \<Rightarrow> bool) \<Rightarrow> 'a list \<Rightarrow> nat option" where
  "find_index p [] = None"
| "find_index p (x # xs) = (if p x then Some 0 else map_option Suc (find_index p xs))"

text \<open>
  The constructor receives \<^verbatim>\<open>+id\<close>, the identifier attribute as a number. The stored
  identifiers are integers, and a number that is none of them (\<^verbatim>\<open>NaN\<close> included) is
  strictly equal to no stored identifier, like an integer that is absent. The last
  statement, \<^verbatim>\<open>this.toDoList.items = this.toDoList.items || []\<close>, gives the fresh object
  its empty items and leaves the items of a list that was found as they are.
\<close>

definition VanillaToDoListModel :: "int \<Rightarrow> toDoList list option \<Rightarrow> clock \<Rightarrow> list_state" where
  "VanillaToDoListModel i st c =
     \<lparr>toDoLists = load st, localStorage = st, clock = c,
      toDoListId = i,
      toDoList =
        (if length (load st) > 0
         then (case find_index (\<lambda>l. list_id l = i) (load st) of
                 Some n \<Rightarrow> Stored n
               | None \<Rightarrow> Fresh [])
         else Fresh []),
      shownList = None\<rparr>"

text \<open>Reading and assigning \<^verbatim>\<open>this.toDoList.items\<close>, and \<^verbatim>\<open>this.toDoList\<close> as a value.\<close>

definition get_items :: "list_state \<Rightarrow> toDoListItem list" where
  "get_items s =
     (case toDoList s of Stored n \<Rightarrow> items (toDoLists s ! n) | Fresh its \<Rightarrow> its)"

definition set_items :: "toDoListItem list \<Rightarrow> list_state \<Rightarrow> list_state" where
  "set_items its s =
     (case toDoList s of
        Stored n \<Rightarrow> s\<lparr>toDoLists := (toDoLists s)[n := (toDoLists s ! n)\<lparr>items := its\<rparr>]\<rparr>
      | Fresh _ \<Rightarrow> s\<lparr>toDoList := Fresh its\<rparr>)"

definition deref :: "list_state \<Rightarrow> toDoList_obj" where
  "deref s =
     (case toDoList s of Stored n \<Rightarrow> ListObject (toDoLists s ! n) | Fresh its \<Rightarrow> ItemsOnly its)"

text \<open>The private methods \<^verbatim>\<open>#store\<close> and \<^verbatim>\<open>#updateView\<close>, called on \<^verbatim>\<open>this.toDoList\<close>.\<close>

definition store_list :: "list_state \<Rightarrow> list_state" where
  "store_list s =
     (case map_dated (\<lambda>l. list_id l = toDoListId s)
             (\<lambda>d l. l\<lparr>lastUpdated := Some (toJSON d), items := get_items s\<rparr>)
             (toDoLists s) (clock s) of
        (ls, c') \<Rightarrow> s\<lparr>toDoLists := ls, localStorage := Some ls, clock := c'\<rparr>)"

definition updateView_list :: "list_state \<Rightarrow> list_state" where
  "updateView_list s = s\<lparr>shownList := Some (deref s)\<rparr>"

definition createToDoListItem :: "string \<Rightarrow> list_state \<Rightarrow> list_state" where
  "createToDoListItem toDoListItemText s =
     (case new_Date (clock s) of (toDoListItemDateCreated, c') \<Rightarrow>
        updateView_list (store_list
          (set_items
             (get_items s @
                [\<lparr>item_id = getTime toDoListItemDateCreated,
                  item_created = toJSON toDoListItemDateCreated,
                  item_lastUpdated = None,
                  item_text = toDoListItemText,
                  item_done = JBool False\<rparr>])
             (s\<lparr>clock := c'\<rparr>))))"

definition updateToDoListItem :: "int \<Rightarrow> string \<Rightarrow> list_state \<Rightarrow> list_state" where
  "updateToDoListItem i toDoListItemTextNew s =
     (case map_dated (\<lambda>it. item_id it = i)
             (\<lambda>d it. it\<lparr>item_lastUpdated := Some (toJSON d), item_text := toDoListItemTextNew\<rparr>)
             (get_items s) (clock s) of
        (its, c') \<Rightarrow> updateView_list (store_list (set_items its (s\<lparr>clock := c'\<rparr>))))"

definition deleteToDoListItem :: "int \<Rightarrow> list_state \<Rightarrow> list_state" where
  "deleteToDoListItem i s =
     updateView_list (store_list
       (set_items (filter (\<lambda>it. item_id it \<noteq> i) (get_items s)) s))"

definition toggleToDoListItem :: "int \<Rightarrow> list_state \<Rightarrow> list_state" where
  "toggleToDoListItem i s =
     updateView_list (store_list
       (set_items
          (map (\<lambda>it. if item_id it = i then it\<lparr>item_done := js_not (item_done it)\<rparr> else it)
             (get_items s)) s))"

definition toggleAllToDoListItems :: "list_state \<Rightarrow> list_state" where
  "toggleAllToDoListItems s =
     updateView_list (store_list
       (set_items (map (\<lambda>it. it\<lparr>item_done := js_not (item_done it)\<rparr>) (get_items s)) s))"

definition clearToDoList :: "list_state \<Rightarrow> list_state" where
  "clearToDoList s =
     updateView_list (store_list
       (set_items (filter (\<lambda>it. item_done it = JBool False) (get_items s)) s))"

text \<open>
  The six item mutations as the controller's handlers dispatch them, and a sequence of
  them applied from left to right.
\<close>

datatype mutation =
    Create string
  | Update int string
  | Delete int
  | Toggle int
  | ToggleAll
  | Clear

fun perform :: "mutation \<Rightarrow> list_state \<Rightarrow> list_state" where
  "perform (Create t) s = createToDoListItem t s"
| "perform (Update i t) s = updateToDoListItem i t s"
| "perform (Delete i) s = deleteToDoListItem i s"
| "perform (Toggle i) s = toggleToDoListItem i s"
| "perform ToggleAll s = toggleAllToDoListItems s"
| "perform Clear s = clearToDoList s"

section \<open>Rendering\<close>

text \<open>Decimal digits of a number, as a template literal prints a count.\<close>

fun string_of_nat :: "nat \<Rightarrow> string" where
  "string_of_nat n =
     (if n < 10 then [''0123456789'' ! n]
      else string_of_nat (n div 10) @ [''0123456789'' ! (n mod 10)])"

text \<open>The two filters of \<^verbatim>\<open>render\<close>, on items and on lists.\<close>

definition toDoListItemsPending :: "toDoListItem list \<Rightarrow> toDoListItem list" where
  "toDoListItemsPending toDoListItems = filter (\<lambda>it. item_done it \<noteq> JBool True) toDoListItems"

definition toDoListItemsDone :: "toDoListItem list \<Rightarrow> toDoListItem list" where
  "toDoListItemsDone toDoListItems = filter (\<lambda>it. item_done it \<noteq> JBool False) toDoListItems"

definition toDoListsPending :: "toDoList list \<Rightarrow> toDoList list" where
  "toDoListsPending ls = filter (\<lambda>l. list_done l \<noteq> JBool True) ls"

definition toDoListsDone :: "toDoList list \<Rightarrow> toDoList list" where
  "toDoListsDone ls = filter (\<lambda>l. list_done l \<noteq> JBool False) ls"

text \<open>
  What one call of \<^verbatim>\<open>render\<close> writes into the document: the rows appended to the new
  list element, the paragraph shown in place of an empty list, the text written to
  \<^verbatim>\<open>span#count\<close> and whether the clear button is shown (\<open>None\<close> where the call leaves
  the node as it was). The heading, the selected filter link and the focus are left
  out.
\<close>

record 'row rendering =
  rows :: "'row list"
  placeholder :: "string option"
  countText :: "string option"
  clearShown :: "bool option"

record item_row =
  itemRow_class :: string
  itemRow_id :: int
  itemRow_title :: string
  itemRow_checked :: bool
  itemRow_created :: timestamp
  itemRow_lastModified :: "timestamp option"
  itemRow_text :: string

definition item_row :: "toDoListItem \<Rightarrow> item_row" where
  "item_row toDoListItem =
     \<lparr>itemRow_class = (if item_done toDoListItem = JBool False then ''pending'' else ''done''),
      itemRow_id = item_id toDoListItem,
      itemRow_title =
        ''Click to mark as '' @ (if item_done toDoListItem = JBool False then ''done'' else ''pending''),
      itemRow_checked = truthy (item_done toDoListItem),
      itemRow_created = item_created toDoListItem,
      itemRow_lastModified = item_lastUpdated toDoListItem,
      itemRow_text = item_text toDoListItem\<rparr>"

text \<open>The fields of \<^verbatim>\<open>this.toDoList\<close> that \<^verbatim>\<open>render\<close> reads.\<close>

fun obj_items :: "toDoList_obj \<Rightarrow> toDoListItem list" where
  "obj_items (ListObject l) = items l"
| "obj_items (ItemsOnly its) = its"

fun obj_id :: "toDoList_obj \<Rightarrow> int option" where
  "obj_id (ListObject l) = Some (list_id l)"
| "obj_id (ItemsOnly its) = None"

text \<open>\<^verbatim>\<open>VanillaToDoListView.render\<close>; \<open>hash\<close> is \<^verbatim>\<open>window.location.hash\<close>.\<close>

definition render_list :: "string \<Rightarrow> toDoList_obj \<Rightarrow> item_row rendering" where
  "render_list hash obj =
     (let toDoListItems = obj_items obj;
          windowLocationHash = (if hash = [] then ''#all'' else hash)
      in if length toDoListItems > 0
         then
           (let countToDoListItemsAll = length toDoListItems;
                countToDoListItemsPending = length (toDoListItemsPending toDoListItems);
                countToDoListItemsDone = length (toDoListItemsDone toDoListItems);
                shownItems =
                  (if windowLocationHash = ''#pending'' then toDoListItemsPending toDoListItems
                   else if windowLocationHash = ''#done'' then toDoListItemsDone toDoListItems
                   else toDoListItems)
            in \<lparr>rows = map item_row shownItems,
                placeholder = None,
                countText = Some (string_of_nat countToDoListItemsAll @ '' ('' @
                                  string_of_nat countToDoListItemsPending @ ''/'' @
                                  string_of_nat countToDoListItemsDone @ '')''),
                clearShown = Some (countToDoListItemsDone > 0)\<rparr>)
         else
           \<lparr>rows = [],
            placeholder = Some (if obj_id obj \<noteq> None
                              then ''Good for you: There's nothing to do!''
                              else ''Invalid ID! Your entries won't be stored!''),
            countText = None,
            clearShown = None\<rparr>)"

record list_row =
  listRow_class :: string
  listRow_id :: int
  listRow_title :: string
  listRow_checked :: bool
  listRow_created :: timestamp
  listRow_lastRenamed :: "timestamp option"
  listRow_lastModified :: "timestamp option"
  listRow_name :: string
  listRow_count :: string

definition list_row :: "toDoList \<Rightarrow> list_row" where
  "list_row l =
     (let toDoListItems = items l;
          countToDoListItemsAll = length toDoListItems;
          countToDoListItemsPending = length (toDoListItemsPending toDoListItems);
          countToDoListItemsDone = length (toDoListItemsDone toDoListItems)
      in \<lparr>listRow_class = (if list_done l = JBool False then ''pending'' else ''done''),
          listRow_id = list_id l,
          listRow_title =
            ''Click to mark as '' @ (if list_done l = JBool False then ''done'' else ''pending''),
          listRow_checked = truthy (list_done l),
          listRow_created = list_created l,
          listRow_lastRenamed = lastRenamed l,
          listRow_lastModified = lastUpdated l,
          listRow_name = name l,
          listRow_count =
            ''('' @ string_of_nat countToDoListItemsAll @ '' '' @
            (if countToDoListItemsAll = 1 then ''item'' else ''items'') @
            (if countToDoListItemsAll > 0
             then '': '' @ string_of_nat countToDoListItemsPending @ '' pending, '' @
                  string_of_nat countToDoListItemsDone @ '' done''
             else []) @ '')''\<rparr>)"

text \<open>\<^verbatim>\<open>VanillaToDoListsView.render\<close>\<close>

definition render_lists :: "string \<Rightarrow> toDoList list \<Rightarrow> list_row rendering" where
  "render_lists hash ls =
     (let windowLocationHash = (if hash = [] then ''#all'' else hash)
      in if length ls > 0
         then
           (let countToDoListsAll = length ls;
                countToDoListsPending = length (toDoListsPending ls);
                countToDoListsDone = length (toDoListsDone ls);
                shownRecords =
                  (if windowLocationHash = ''#pending'' then toDoListsPending ls
                   else if windowLocationHash = ''#done'' then toDoListsDone ls
                   else ls)
            in \<lparr>rows = map list_row shownRecords,
                placeholder = None,
                countText = Some (string_of_nat countToDoListsAll @ '' ('' @
                                  string_of_nat countToDoListsPending @ ''/'' @
                                  string_of_nat countToDoListsDone @ '')''),
                clearShown = Some (countToDoListsDone > 0)\<rparr>)
         else
           \<lparr>rows = [],
            placeholder = Some ''There are no to-do lists to show!'',
            countText = None,
            clearShown = None\<rparr>)"

section \<open>The invariant of the single-list model\<close>

text \<open>
  A stored reference points into the array, at a list with the model's identifier; a
  fresh object stands in only when no list has that identifier.
\<close>

definition wf :: "list_state \<Rightarrow> bool" where
  "wf s =
     (case toDoList s of
        Stored n \<Rightarrow> n < length (toDoLists s) \<and> list_id (toDoLists s ! n) = toDoListId s
      | Fresh its \<Rightarrow> \<forall>l\<in>set (toDoLists s). list_id l \<noteq> toDoListId s)"

text \<open>
  The items a mutation assigns to \<^verbatim>\<open>this.toDoList.items\<close>, and the number of clock
  readings it takes before it stores.
\<close>

definition new_items :: "mutation \<Rightarrow> list_state \<Rightarrow> toDoListItem list" where
  "new_items m s =
     (case m of
        Create t \<Rightarrow> get_items s @
           [\<lparr>item_id = getTime (clock s 0), item_created = toJSON (clock s 0),
             item_lastUpdated = None, item_text = t, item_done = JBool False\<rparr>]
      | Update i t \<Rightarrow>
           fst (map_dated (\<lambda>it. item_id it = i)
             (\<lambda>d it. it\<lparr>item_lastUpdated := Some (toJSON d), item_text := t\<rparr>)
             (get_items s) (clock s))
      | Delete i \<Rightarrow> filter (\<lambda>it. item_id it \<noteq> i) (get_items s)
      | Toggle i \<Rightarrow>
           map (\<lambda>it. if item_id it = i then it\<lparr>item_done := js_not (item_done it)\<rparr> else it)
             (get_items s)
      | ToggleAll \<Rightarrow> map (\<lambda>it. it\<lparr>item_done := js_not (item_done it)\<rparr>) (get_items s)
      | Clear \<Rightarrow> filter (\<lambda>it. item_done it = JBool False) (get_items s))"

definition reads :: "mutation \<Rightarrow> list_state \<Rightarrow> nat" where
  "reads m s =
     (case m of
        Create t \<Rightarrow> 1
      | Update i t \<Rightarrow> length (filter (\<lambda>it. item_id it = i) (get_items s))
      | _ \<Rightarrow> 0)"

section \<open>Example data\<close>

definition example_clock :: clock where
  "example_clock = (\<lambda>n. Date (1000 + int n))"

definition example_item :: "int \<Rightarrow> string \<Rightarrow> jsval \<Rightarrow> toDoListItem" where
  "example_item i t d =
     \<lparr>item_id = i, item_created = ISO i, item_lastUpdated = None, item_text = t, item_done = d\<rparr>"

definition example_list :: "int \<Rightarrow> string \<Rightarrow> jsval \<Rightarrow> toDoListItem list \<Rightarrow> toDoList" where
  "example_list i n d its =
     \<lparr>list_id = i, list_created = ISO i, lastRenamed = None, lastUpdated = None,
      name = n, list_done = d, items = its\<rparr>"

section \<open>Lemmas\<close>

lemma map_dated_length: "length (fst (map_dated p f xs c)) = length xs"
  by (induction xs arbitrary: c) (simp_all add: new_Date_def case_prod_unfold)

lemma map_dated_clock: "snd (map_dated p f xs c) = (\<lambda>n. c (n + length (filter p xs)))"
  by (induction xs arbitrary: c) (simp_all add: new_Date_def case_prod_unfold)

lemma map_dated_nth:
  "n < length xs \<Longrightarrow>
   fst (map_dated p f xs c) ! n =
     (if p (xs ! n) then f (c (length (filter p (take n xs)))) (xs ! n) else xs ! n)"
proof (induction xs arbitrary: c n)
  case Nil
  then show ?case by simp
next
  case (Cons x xs)
  show ?case
  proof (cases n)
    case 0
    then show ?thesis by (simp add: new_Date_def case_prod_unfold)
  next
    case (Suc m)
    with Cons.prems have m: "m < length xs" by simp
    show ?thesis
      using Cons.IH [OF m] Suc by (simp add: new_Date_def case_prod_unfold)
  qed
qed

lemma map_dated_none:
  "\<forall>x\<in>set xs. \<not> p x \<Longrightarrow> map_dated p f xs c = (xs, c)"
  by (induction xs arbitrary: c) auto

lemma find_index_Some:
  "find_index p xs = Some n \<Longrightarrow> n < length xs \<and> p (xs ! n)"
  by (induction xs arbitrary: n) (auto split: if_splits)

lemma find_index_None:
  "find_index p xs = None \<Longrightarrow> \<forall>x\<in>set xs. \<not> p x"
  by (induction xs) (auto split: if_splits)

lemma wf_new: "wf (VanillaToDoListModel i st c)"
  by (auto simp: wf_def VanillaToDoListModel_def split: option.splits
      dest: find_index_Some find_index_None)

lemma map_dated_update:
  "n < length xs \<Longrightarrow> p x \<Longrightarrow> p (xs ! n) \<Longrightarrow> (\<And>d. f d x = f d (xs ! n)) \<Longrightarrow>
   map_dated p f (xs[n := x]) c = map_dated p f xs c"
proof (induction xs arbitrary: n c)
  case Nil
  then show ?case by simp
next
  case (Cons y ys)
  show ?case
  proof (cases n)
    case 0
    with Cons.prems show ?thesis by simp
  next
    case (Suc m)
    with Cons.prems have "map_dated p f (ys[m := x]) c' = map_dated p f ys c'" for c'
      by (intro Cons.IH) simp_all
    with Suc show ?thesis by simp
  qed
qed

lemma get_items_set_items:
  "wf s \<Longrightarrow> get_items (set_items its s) = its"
  by (auto simp: wf_def get_items_def set_items_def split: toDoList_ref.splits)

lemma store_set_items:
  assumes "wf s"
  shows "map_dated (\<lambda>l. list_id l = toDoListId s)
           (\<lambda>d l. l\<lparr>lastUpdated := Some (toJSON d), items := its\<rparr>)
           (toDoLists (set_items its s)) c
         = map_dated (\<lambda>l. list_id l = toDoListId s)
           (\<lambda>d l. l\<lparr>lastUpdated := Some (toJSON d), items := its\<rparr>)
           (toDoLists s) c"
proof (cases "toDoList s")
  case (Stored n)
  with assms have n: "n < length (toDoLists s)"
    and k: "list_id (toDoLists s ! n) = toDoListId s"
    by (simp_all add: wf_def)
  show ?thesis
    using Stored k by (simp add: set_items_def map_dated_update [OF n])
next
  case (Fresh x)
  then show ?thesis by (simp add: set_items_def)
qed

text \<open>What every mutation ends with: assign the items, store, update the view.\<close>

lemma commit_toDoLists:
  assumes "wf s"
  shows "toDoLists (updateView_list (store_list (set_items its s))) =
         fst (map_dated (\<lambda>l. list_id l = toDoListId s)
           (\<lambda>d l. l\<lparr>lastUpdated := Some (toJSON d), items := its\<rparr>)
           (toDoLists s) (clock s))"
proof -
  have i: "toDoListId (set_items its s) = toDoListId s"
    by (simp add: set_items_def split: toDoList_ref.splits)
  have c: "clock (set_items its s) = clock s"
    by (simp add: set_items_def split: toDoList_ref.splits)
  show ?thesis
    by (simp add: updateView_list_def store_list_def case_prod_unfold i c
        get_items_set_items [OF assms] store_set_items [OF assms])
qed

lemma commit_localStorage:
  "localStorage (updateView_list (store_list (set_items its s))) =
   Some (toDoLists (updateView_list (store_list (set_items its s))))"
  by (simp add: updateView_list_def store_list_def case_prod_unfold)

lemma commit_toDoListId:
  "toDoListId (updateView_list (store_list (set_items its s))) = toDoListId s"
  by (simp add: updateView_list_def store_list_def case_prod_unfold set_items_def
      split: toDoList_ref.splits)

lemma commit_toDoList:
  "toDoList (updateView_list (store_list (set_items its s))) =
   (case toDoList s of Stored n \<Rightarrow> Stored n | Fresh _ \<Rightarrow> Fresh its)"
  by (simp add: updateView_list_def store_list_def case_prod_unfold set_items_def
      split: toDoList_ref.splits)

lemma map_dated_ids:
  "(\<And>d x. list_id (f d x) = list_id x) \<Longrightarrow>
   map list_id (fst (map_dated p f xs c)) = map list_id xs"
  by (induction xs arbitrary: c) (simp_all add: case_prod_unfold)

lemma commit_ids:
  assumes "wf s"
  shows "map list_id (toDoLists (updateView_list (store_list (set_items its s)))) =
         map list_id (toDoLists s)"
  by (simp add: commit_toDoLists [OF assms] map_dated_ids)

lemma commit_wf:
  assumes "wf s"
  shows "wf (updateView_list (store_list (set_items its s)))"
proof -
  let ?s' = "updateView_list (store_list (set_items its s))"
  have ids: "map list_id (toDoLists ?s') = map list_id (toDoLists s)"
    by (rule commit_ids [OF assms])
  then have len: "length (toDoLists ?s') = length (toDoLists s)"
    by (metis length_map)
  have nth: "list_id (toDoLists ?s' ! n) = list_id (toDoLists s ! n)"
    if "n < length (toDoLists s)" for n
    using ids that len by (metis nth_map)
  have st: "list_id ` set (toDoLists ?s') = list_id ` set (toDoLists s)"
    using ids by (metis set_map)
  show ?thesis
  proof (cases "toDoList s")
    case (Stored n)
    with assms show ?thesis
      by (simp add: wf_def commit_toDoList commit_toDoListId len nth)
  next
    case (Fresh x)
    with assms have "toDoListId s \<notin> list_id ` set (toDoLists s)"
      by (auto simp: wf_def)
    with st have "toDoListId s \<notin> list_id ` set (toDoLists ?s')" by simp
    then have "\<forall>l\<in>set (toDoLists ?s'). list_id l \<noteq> toDoListId s"
      by (metis imageI)
    with Fresh show ?thesis
      by (simp add: wf_def commit_toDoList commit_toDoListId)
  qed
qed

lemma commit_get_items:
  assumes "wf s"
  shows "get_items (updateView_list (store_list (set_items its s))) = its"
proof (cases "toDoList s")
  case (Stored n)
  with assms have n: "n < length (toDoLists s)"
    and k: "list_id (toDoLists s ! n) = toDoListId s"
    by (simp_all add: wf_def)
  show ?thesis
    using Stored k
    by (simp add: get_items_def commit_toDoList commit_toDoLists [OF assms]
        map_dated_nth [OF n])
next
  case (Fresh x)
  then show ?thesis by (simp add: get_items_def commit_toDoList)
qed

lemma wf_clock: "wf (s\<lparr>clock := c\<rparr>) = wf s"
  by (simp add: wf_def split: toDoList_ref.splits)

lemma perform_commit:
  "perform m s =
   updateView_list (store_list (set_items (new_items m s)
     (s\<lparr>clock := (\<lambda>n. clock s (n + reads m s))\<rparr>)))"
proof (cases m)
  case (Create t)
  then show ?thesis
    by (simp add: createToDoListItem_def new_items_def reads_def new_Date_def)
next
  case (Update i t)
  then show ?thesis
    by (simp add: updateToDoListItem_def new_items_def reads_def case_prod_unfold
        map_dated_clock)
next
  case (Delete i)
  then show ?thesis by (simp add: deleteToDoListItem_def new_items_def reads_def)
next
  case (Toggle i)
  then show ?thesis by (simp add: toggleToDoListItem_def new_items_def reads_def)
next
  case ToggleAll
  then show ?thesis by (simp add: toggleAllToDoListItems_def new_items_def reads_def)
next
  case Clear
  then show ?thesis by (simp add: clearToDoList_def new_items_def reads_def)
qed

lemma perform_wf: "wf s \<Longrightarrow> wf (perform m s)"
  by (simp add: perform_commit commit_wf wf_clock)

lemma perform_get_items: "wf s \<Longrightarrow> get_items (perform m s) = new_items m s"
  by (simp add: perform_commit commit_get_items wf_clock)

lemma fold_perform_wf: "wf s \<Longrightarrow> wf (fold perform ms s)"
  by (induction ms arbitrary: s) (simp_all add: perform_wf)

lemma reachable_wf: "wf (fold perform ms (VanillaToDoListModel i st c))"
  by (simp add: fold_perform_wf wf_new)

lemma two_filters_count:
  "length (filter (\<lambda>x. d x \<noteq> JBool True) xs) + length (filter (\<lambda>x. d x \<noteq> JBool False) xs) =
   length xs + length (filter (\<lambda>x. d x \<noteq> JBool True \<and> d x \<noteq> JBool False) xs)"
  by (induction xs) auto

lemma two_filters_exact:
  "(length xs = length (filter (\<lambda>x. d x \<noteq> JBool True) xs) + length (filter (\<lambda>x. d x \<noteq> JBool False) xs))
   \<longleftrightarrow> (\<forall>x\<in>set xs. d x = JBool True \<or> d x = JBool False)"
proof -
  have "(length xs = length (filter (\<lambda>x. d x \<noteq> JBool True) xs) + length (filter (\<lambda>x. d x \<noteq> JBool False) xs))
      \<longleftrightarrow> filter (\<lambda>x. d x \<noteq> JBool True \<and> d x \<noteq> JBool False) xs = []"
    using two_filters_count [of d xs] by auto
  also have "\<dots> \<longleftrightarrow> (\<forall>x\<in>set xs. d x = JBool True \<or> d x = JBool False)"
    by (auto simp: filter_empty_conv)
  finally show ?thesis .
qed

lemma find_index_absent:
  "\<forall>x\<in>set xs. \<not> p x \<Longrightarrow> find_index p xs = None"
  by (induction xs) auto

lemma perform_toDoListId: "toDoListId (perform m s) = toDoListId s"
  by (simp add: perform_commit commit_toDoListId)

lemma reachable_toDoListId: "toDoListId (fold perform ms (VanillaToDoListModel i st c)) = i"
proof -
  have "toDoListId (fold perform ms s) = toDoListId s" for s
    by (induction ms arbitrary: s) (simp_all add: perform_toDoListId)
  then show ?thesis by (simp add: VanillaToDoListModel_def)
qed

lemma perform_toDoLists:
  assumes "wf s"
  shows "toDoLists (perform m s) =
         fst (map_dated (\<lambda>l. list_id l = toDoListId s)
           (\<lambda>d l. l\<lparr>lastUpdated := Some (toJSON d), items := new_items m s\<rparr>)
           (toDoLists s) (\<lambda>n. clock s (n + reads m s)))"
proof -
  have w: "wf (s\<lparr>clock := (\<lambda>n. clock s (n + reads m s))\<rparr>)"
    using assms by (simp add: wf_clock)
  show ?thesis
    by (simp add: perform_commit commit_toDoLists [OF w])
qed

lemma perform_localStorage: "localStorage (perform m s) = Some (toDoLists (perform m s))"
  by (simp add: perform_commit commit_localStorage)

lemma clear_items:
  "wf s \<Longrightarrow> get_items (clearToDoList s) = filter (\<lambda>it. item_done it = JBool False) (get_items s)"
  using perform_get_items [of s Clear] by (simp add: new_items_def)

lemma toggleAll_items:
  "wf s \<Longrightarrow> get_items (toggleAllToDoListItems s) =
     map (\<lambda>it. it\<lparr>item_done := js_not (item_done it)\<rparr>) (get_items s)"
  using perform_get_items [of s ToggleAll] by (simp add: new_items_def)

lemma filter_strictly_false:
  "\<forall>x\<in>set xs. d x = JBool True \<or> d x = JBool False \<Longrightarrow>
   filter (\<lambda>x. d x = JBool False) xs = filter (\<lambda>x. d x \<noteq> JBool True) xs"
  by (induction xs) auto

lemma js_not_twice: "js_not (js_not v) = JBool (truthy v)"
  by (simp add: js_not_def)

lemma map_dated_erased:
  "(\<And>d x. g (f d x) = h x) \<Longrightarrow>
   map g (fst (map_dated p f xs c)) = map (\<lambda>x. if p x then h x else g x) xs"
  by (induction xs arbitrary: c) (simp_all add: case_prod_unfold)

lemma clear_erased:
  assumes "wf s"
  shows "map (\<lambda>l. l\<lparr>lastUpdated := None\<rparr>) (toDoLists (clearToDoList s)) =
         map (\<lambda>l. if list_id l = toDoListId s
                   then l\<lparr>lastUpdated := None,
                          items := filter (\<lambda>it. item_done it = JBool False) (get_items s)\<rparr>
                   else l\<lparr>lastUpdated := None\<rparr>) (toDoLists s)"
  using perform_toDoLists [OF assms, of Clear]
  by (simp add: new_items_def map_dated_erased)

lemma update_items:
  "wf s \<Longrightarrow> get_items (updateToDoListItem j t s) =
     fst (map_dated (\<lambda>it. item_id it = j)
       (\<lambda>d it. it\<lparr>item_lastUpdated := Some (toJSON d), item_text := t\<rparr>)
       (get_items s) (clock s))"
  using perform_get_items [of s "Update j t"] by (simp add: new_items_def)

lemma new_unknown_id:
  assumes "\<forall>l\<in>set (load st). list_id l \<noteq> i"
  shows "toDoList (VanillaToDoListModel i st c) = Fresh []"
  using assms by (simp add: VanillaToDoListModel_def find_index_absent)

lemma perform_fresh:
  assumes "wf s" and "toDoList s = Fresh its"
  shows "toDoList (perform m s) = Fresh (new_items m s)
       \<and> toDoLists (perform m s) = toDoLists s
       \<and> localStorage (perform m s) = Some (toDoLists s)"
proof -
  from assms have n: "\<forall>l\<in>set (toDoLists s). \<not> list_id l = toDoListId s"
    by (simp add: wf_def)
  have l: "toDoLists (perform m s) = toDoLists s"
    by (simp add: perform_toDoLists [OF assms(1)] map_dated_none [OF n])
  have r: "toDoList (perform m s) = Fresh (new_items m s)"
    using assms(2) by (simp add: perform_commit commit_toDoList)
  show ?thesis by (simp add: l r perform_localStorage)
qed

lemma fold_perform_fresh:
  assumes "wf s" and "toDoList s = Fresh its"
  shows "(\<exists>its'. toDoList (fold perform ms s) = Fresh its')
       \<and> toDoLists (fold perform ms s) = toDoLists s
       \<and> load (localStorage (fold perform ms s)) =
           (if ms = [] then load (localStorage s) else toDoLists s)"
  using assms
proof (induction ms arbitrary: s its)
  case Nil
  then show ?case by simp
next
  case (Cons m ms)
  have w: "wf (perform m s)" by (rule perform_wf [OF Cons.prems(1)])
  note p = perform_fresh [OF Cons.prems, of m]
  from p have f: "toDoList (perform m s) = Fresh (new_items m s)" by simp
  show ?case
    using Cons.IH [OF w f] p by (simp add: load_def)
qed

lemma commit_clock:
  assumes "wf s"
  shows "clock (updateView_list (store_list (set_items its s))) =
         (\<lambda>n. clock s (n + length (filter (\<lambda>l. list_id l = toDoListId s) (toDoLists s))))"
proof -
  have i: "toDoListId (set_items its s) = toDoListId s"
    by (simp add: set_items_def split: toDoList_ref.splits)
  have c: "clock (set_items its s) = clock s"
    by (simp add: set_items_def split: toDoList_ref.splits)
  have "clock (updateView_list (store_list (set_items its s))) =
        snd (map_dated (\<lambda>l. list_id l = toDoListId s)
           (\<lambda>d l. l\<lparr>lastUpdated := Some (toJSON d), items := its\<rparr>)
           (toDoLists s) (clock s))"
    by (simp add: updateView_list_def store_list_def case_prod_unfold i c
        get_items_set_items [OF assms] store_set_items [OF assms])
  then show ?thesis by (simp add: map_dated_clock)
qed

lemma perform_clock:
  assumes "wf s"
  shows "clock (perform m s) =
         (\<lambda>n. clock s (n + length (filter (\<lambda>l. list_id l = toDoListId s) (toDoLists s))
                  + reads m s))"
proof -
  have w: "wf (s\<lparr>clock := (\<lambda>n. clock s (n + reads m s))\<rparr>)"
    using assms by (simp add: wf_clock)
  show ?thesis
    by (simp add: perform_commit commit_clock [OF w])
qed

lemma perform_length:
  "wf s \<Longrightarrow> length (toDoLists (perform m s)) = length (toDoLists s)"
  by (simp add: perform_toDoLists map_dated_length)

lemma perform_nth:
  assumes "wf s" and "k < length (toDoLists s)"
  shows "toDoLists (perform m s) ! k =
         (if list_id (toDoLists s ! k) = toDoListId s
          then (toDoLists s ! k)
                 \<lparr>lastUpdated :=
                    Some (toJSON (clock s
                      (reads m s +
                       length (filter (\<lambda>l. list_id l = toDoListId s) (take k (toDoLists s)))))),
                  items := new_items m s\<rparr>
          else toDoLists s ! k)"
  by (simp add: perform_toDoLists [OF assms(1)] map_dated_nth [OF assms(2)] add.commute)

lemma perform_ids:
  assumes "wf s"
  shows "map list_id (toDoLists (perform m s)) = map list_id (toDoLists s)"
  by (simp add: perform_toDoLists [OF assms] map_dated_ids)

lemma count_all_by_ids:
  "map list_id xs = map list_id ys \<Longrightarrow>
   length (filter (\<lambda>l. list_id l = i) xs) = length (filter (\<lambda>l. list_id l = i) ys)"
proof (induction xs arbitrary: ys)
  case Nil
  then show ?case by simp
next
  case (Cons x xs)
  then obtain y ys' where y: "ys = y # ys'" by (cases ys) auto
  with Cons.prems have "list_id x = list_id y" and "map list_id xs = map list_id ys'"
    by simp_all
  with Cons.IH [of ys'] y show ?case by simp
qed

lemma count_by_ids:
  assumes "map list_id xs = map list_id ys"
  shows "length (filter (\<lambda>l. list_id l = i) (take k xs)) =
         length (filter (\<lambda>l. list_id l = i) (take k ys))"
proof -
  have "map list_id (take k xs) = map list_id (take k ys)"
    using assms by (metis take_map)
  then show ?thesis by (rule count_all_by_ids)
qed

lemma perform_twice_nth:
  assumes "wf s" and "k < length (toDoLists s)"
  shows "toDoLists (perform m2 (perform m1 s)) ! k =
         (if list_id (toDoLists s ! k) = toDoListId s
          then (toDoLists s ! k)
                 \<lparr>lastUpdated :=
                    Some (toJSON (clock s
                      (reads m2 (perform m1 s) +
                       length (filter (\<lambda>l. list_id l = toDoListId s) (take k (toDoLists s))) +
                       length (filter (\<lambda>l. list_id l = toDoListId s) (toDoLists s)) +
                       reads m1 s))),
                  items := new_items m2 (perform m1 s)\<rparr>
          else toDoLists s ! k)"
proof -
  let ?s1 = "perform m1 s"
  have w1: "wf ?s1" by (rule perform_wf [OF assms(1)])
  have k1: "k < length (toDoLists ?s1)"
    using assms by (simp add: perform_length)
  have i1: "toDoListId ?s1 = toDoListId s" by (rule perform_toDoListId)
  have ids: "map list_id (toDoLists ?s1) = map list_id (toDoLists s)"
    by (rule perform_ids [OF assms(1)])
  have idk: "list_id (toDoLists ?s1 ! k) = list_id (toDoLists s ! k)"
    using ids assms(2) k1 by (metis nth_map)
  note cnt = count_by_ids [OF ids, of "toDoListId s" k]
  show ?thesis
    by (simp add: perform_nth [OF w1 k1] i1 idk cnt perform_clock [OF assms(1)]
        perform_nth [OF assms])
qed

lemma toggle_items:
  "wf s \<Longrightarrow> get_items (toggleToDoListItem j s) =
     map (\<lambda>it. if item_id it = j then it\<lparr>item_done := js_not (item_done it)\<rparr> else it)
       (get_items s)"
  using perform_get_items [of s "Toggle j"] by (simp add: new_items_def)

lemma delete_items:
  "wf s \<Longrightarrow> get_items (deleteToDoListItem j s) =
     filter (\<lambda>it. item_id it \<noteq> j) (get_items s)"
  using perform_get_items [of s "Delete j"] by (simp add: new_items_def)

text \<open>The definitions that a concrete run of the two models unfolds.\<close>

lemmas eval_defs =
  VanillaToDoListsModel_def VanillaToDoListModel_def load_def example_clock_def
  example_list_def example_item_def new_Date_def js_not_def
  store_lists_def updateView_lists_def updateToDoList_def deleteToDoList_def
  toggleToDoList_def toggleAllToDoLists_def clearToDoLists_def
  get_items_def set_items_def deref_def store_list_def updateView_list_def
  createToDoListItem_def updateToDoListItem_def deleteToDoListItem_def
  toggleToDoListItem_def toggleAllToDoListItems_def clearToDoList_def

section \<open>The filter partition of the views\<close>

text \<open>
  Claim C1, as stated: for every sequence of records, its length is the sum of the
  pending count (records with \<^verbatim>\<open>done !== true\<close>) and the done count (records with
  \<^verbatim>\<open>done !== false\<close>) exactly when no record has \<^verbatim>\<open>done === undefined\<close>. This fails for a
  record whose \<^verbatim>\<open>done\<close> is \<^verbatim>\<open>null\<close>: it is not undefined, yet both filters keep it, so
  one record gives the counts 1 and 1.
\<close>

theorem partition_counts_counterexample:
  "list_done (example_list 1 ''a'' JNull []) \<noteq> JUndefined
   \<and> length [example_list 1 ''a'' JNull []] \<noteq>
       length (toDoListsPending [example_list 1 ''a'' JNull []]) +
       length (toDoListsDone [example_list 1 ''a'' JNull []])"
  by (simp add: toDoListsPending_def toDoListsDone_def example_list_def)

text \<open>
  Claim C1, amended: for every sequence of lists and every sequence of items, the length
  is the sum of the pending count and the done count exactly when every record has
  \<^verbatim>\<open>done\<close> strictly equal to \<^verbatim>\<open>true\<close> or to \<^verbatim>\<open>false\<close>; the two counts together exceed the
  length by the number of records whose \<^verbatim>\<open>done\<close> is neither; and every record with
  \<^verbatim>\<open>done === undefined\<close> is in both the pending and the done subset.
\<close>

theorem partition_counts:
  "(length ls = length (toDoListsPending ls) + length (toDoListsDone ls)
      \<longleftrightarrow> (\<forall>l\<in>set ls. list_done l = JBool True \<or> list_done l = JBool False))
   \<and> length (toDoListsPending ls) + length (toDoListsDone ls) =
       length ls + length (filter (\<lambda>l. list_done l \<noteq> JBool True \<and> list_done l \<noteq> JBool False) ls)
   \<and> (\<forall>l\<in>set ls. list_done l = JUndefined \<longrightarrow>
         l \<in> set (toDoListsPending ls) \<and> l \<in> set (toDoListsDone ls))
   \<and> (length its = length (toDoListItemsPending its) + length (toDoListItemsDone its)
      \<longleftrightarrow> (\<forall>it\<in>set its. item_done it = JBool True \<or> item_done it = JBool False))
   \<and> length (toDoListItemsPending its) + length (toDoListItemsDone its) =
       length its + length (filter (\<lambda>it. item_done it \<noteq> JBool True \<and> item_done it \<noteq> JBool False) its)
   \<and> (\<forall>it\<in>set its. item_done it = JUndefined \<longrightarrow>
         it \<in> set (toDoListItemsPending its) \<and> it \<in> set (toDoListItemsDone its))"
  unfolding toDoListsPending_def toDoListsDone_def toDoListItemsPending_def toDoListItemsDone_def
  using two_filters_exact [of ls list_done] two_filters_count [of list_done ls]
    two_filters_exact [of its item_done] two_filters_count [of item_done its]
  by simp

text \<open>
  Two lists, the first without a \<^verbatim>\<open>done\<close> field and the second done: 1 pending and 2
  done. Two items, the first without a \<^verbatim>\<open>done\<close> field and the second pending: 2 pending
  and 1 done.
\<close>

theorem partition_counts_witness:
  "length (toDoListsPending [example_list 1 ''a'' JUndefined [], example_list 2 ''b'' (JBool True) []]) = 1
   \<and> length (toDoListsDone [example_list 1 ''a'' JUndefined [], example_list 2 ''b'' (JBool True) []]) = 2
   \<and> example_list 1 ''a'' JUndefined []
       \<in> set (toDoListsDone [example_list 1 ''a'' JUndefined [], example_list 2 ''b'' (JBool True) []])
   \<and> length (toDoListItemsPending [example_item 1 ''a'' JUndefined, example_item 2 ''b'' (JBool False)]) = 2
   \<and> length (toDoListItemsDone [example_item 1 ''a'' JUndefined, example_item 2 ''b'' (JBool False)]) = 1"
  using partition_counts [of "[example_list 1 ''a'' JUndefined [], example_list 2 ''b'' (JBool True) []]"
      "[example_item 1 ''a'' JUndefined, example_item 2 ''b'' (JBool False)]"]
  by (simp add: example_list_def example_item_def toDoListsPending_def toDoListsDone_def
      toDoListItemsPending_def toDoListItemsDone_def)

text \<open>
  Claim C8: for every non-empty sequence, whatever the location hash, the text written
  to the count node is the total, the pending count and the done count of the whole
  sequence, while the rows are those of the whole sequence (no hash, \<^verbatim>\<open>#all\<close>), of its
  pending records (\<^verbatim>\<open>#pending\<close>) or of its done records (\<^verbatim>\<open>#done\<close>); this for the items
  of a list and for the lists. A list with a pending item A and a done item B, rendered
  under \<^verbatim>\<open>#pending\<close>, has the one row of A and the count text \<^verbatim>\<open>2 (1/1)\<close>.
\<close>

theorem summary_counts_unfiltered:
  "(obj_items obj \<noteq> [] \<longrightarrow>
      countText (render_list hash obj) =
        Some (string_of_nat (length (obj_items obj)) @ '' ('' @
              string_of_nat (length (toDoListItemsPending (obj_items obj))) @ ''/'' @
              string_of_nat (length (toDoListItemsDone (obj_items obj))) @ '')'')
      \<and> rows (render_list [] obj) = map item_row (obj_items obj)
      \<and> rows (render_list ''#all'' obj) = map item_row (obj_items obj)
      \<and> rows (render_list ''#pending'' obj) = map item_row (toDoListItemsPending (obj_items obj))
      \<and> rows (render_list ''#done'' obj) = map item_row (toDoListItemsDone (obj_items obj)))
   \<and> (ls \<noteq> [] \<longrightarrow>
      countText (render_lists hash ls) =
        Some (string_of_nat (length ls) @ '' ('' @
              string_of_nat (length (toDoListsPending ls)) @ ''/'' @
              string_of_nat (length (toDoListsDone ls)) @ '')'')
      \<and> rows (render_lists [] ls) = map list_row ls
      \<and> rows (render_lists ''#all'' ls) = map list_row ls
      \<and> rows (render_lists ''#pending'' ls) = map list_row (toDoListsPending ls)
      \<and> rows (render_lists ''#done'' ls) = map list_row (toDoListsDone ls))
   \<and> map itemRow_text (rows (render_list ''#pending''
        (ListObject (l\<lparr>items := [a\<lparr>item_text := ''A'', item_done := JBool False\<rparr>,
                                 b\<lparr>item_text := ''B'', item_done := JBool True\<rparr>]\<rparr>)))) = [''A'']
   \<and> countText (render_list ''#pending''
        (ListObject (l\<lparr>items := [a\<lparr>item_text := ''A'', item_done := JBool False\<rparr>,
                                 b\<lparr>item_text := ''B'', item_done := JBool True\<rparr>]\<rparr>))) = Some ''2 (1/1)''"
  by (simp add: render_list_def render_lists_def Let_def toDoListItemsPending_def
      toDoListItemsDone_def item_row_def)

text \<open>
  The same list under \<^verbatim>\<open>#done\<close> shows the row of B with the same count text; three
  lists of which two are done show, under \<^verbatim>\<open>#pending\<close>, one row and \<^verbatim>\<open>3 (1/2)\<close>.
\<close>

theorem summary_counts_unfiltered_witness:
  "obj_items (ListObject (example_list 1 ''L''  (JBool False)
      [example_item 1 ''A'' (JBool False), example_item 2 ''B'' (JBool True)])) \<noteq> []
   \<and> countText (render_list ''#done'' (ListObject (example_list 1 ''L''  (JBool False)
      [example_item 1 ''A'' (JBool False), example_item 2 ''B'' (JBool True)]))) = Some ''2 (1/1)''
   \<and> map itemRow_text (rows (render_list ''#done'' (ListObject (example_list 1 ''L''  (JBool False)
      [example_item 1 ''A'' (JBool False), example_item 2 ''B'' (JBool True)])))) = [''B'']
   \<and> countText (render_lists ''#pending''
        [example_list 1 ''L''  (JBool False) [], example_list 2 ''M'' (JBool True) [],
         example_list 3 ''N'' (JBool True) []]) = Some ''3 (1/2)''
   \<and> map listRow_name (rows (render_lists ''#pending''
        [example_list 1 ''L''  (JBool False) [], example_list 2 ''M'' (JBool True) [],
         example_list 3 ''N'' (JBool True) []])) = [''L'']"
  using summary_counts_unfiltered [where obj = "ListObject (example_list 1 ''L''  (JBool False)
      [example_item 1 ''A'' (JBool False), example_item 2 ''B'' (JBool True)])" and hash = "''#done''"
      and ls = "[example_list 1 ''L''  (JBool False) [], example_list 2 ''M'' (JBool True) [],
         example_list 3 ''N'' (JBool True) []]"]
  by (simp add: example_list_def example_item_def toDoListItemsPending_def toDoListItemsDone_def
      toDoListsPending_def toDoListsDone_def item_row_def list_row_def render_lists_def Let_def)

section \<open>The operations on the to-do lists\<close>

text \<open>
  Claim C4: for every state of the model and every name, \<^verbatim>\<open>createToDoList\<close> leaves the
  lists there are in place and appends one list after them, whose identifier is
  \<^verbatim>\<open>getTime()\<close> of the date read, whose \<^verbatim>\<open>created\<close> is \<^verbatim>\<open>toJSON()\<close> of that same date,
  whose \<^verbatim>\<open>lastRenamed\<close> and \<^verbatim>\<open>lastUpdated\<close> are null, whose \<^verbatim>\<open>done\<close> is false and whose
  items are empty; the new array is what is stored and shown. From an empty storage,
  creating "Groceries" gives exactly one such list of that name.
\<close>

theorem createToDoList_appends_new_list:
  "toDoLists (createToDoList n s) =
     toDoLists s @
       [\<lparr>list_id = getTime (clock s 0), list_created = toJSON (clock s 0),
         lastRenamed = None, lastUpdated = None, name = n,
         list_done = JBool False, items = []\<rparr>]
   \<and> localStorage (createToDoList n s) = Some (toDoLists (createToDoList n s))
   \<and> shownLists (createToDoList n s) = Some (toDoLists (createToDoList n s))
   \<and> toDoLists (createToDoList ''Groceries'' (VanillaToDoListsModel None c)) =
       [\<lparr>list_id = getTime (c 0), list_created = toJSON (c 0),
         lastRenamed = None, lastUpdated = None, name = ''Groceries'',
         list_done = JBool False, items = []\<rparr>]"
  by (simp add: createToDoList_def new_Date_def store_lists_def updateView_lists_def
      VanillaToDoListsModel_def load_def)

text \<open>With the clock at instant 1000 and one list stored, the new list comes second.\<close>

theorem createToDoList_appends_new_list_witness:
  "toDoLists (createToDoList ''Groceries''
     (VanillaToDoListsModel (Some [example_list 1 ''Errands'' (JBool True) []]) example_clock)) =
   [example_list 1 ''Errands'' (JBool True) [],
    \<lparr>list_id = 1000, list_created = ISO 1000, lastRenamed = None, lastUpdated = None,
     name = ''Groceries'', list_done = JBool False, items = []\<rparr>]"
  using createToDoList_appends_new_list [of "''Groceries''"
      "VanillaToDoListsModel (Some [example_list 1 ''Errands'' (JBool True) []]) example_clock"]
  by (simp add: VanillaToDoListsModel_def load_def example_clock_def)

text \<open>
  Claim C5: for every state of the model and every identifier that no list has,
  \<^verbatim>\<open>updateToDoList\<close>, \<^verbatim>\<open>deleteToDoList\<close> and \<^verbatim>\<open>toggleToDoList\<close> with that identifier
  leave the lists (and the clock) as they are: all that happens is that the same array
  is stored and shown again. The operations return no error value.
\<close>

theorem unknown_id_is_no_op:
  assumes "\<forall>l\<in>set (toDoLists s). list_id l \<noteq> i"
  shows "updateToDoList i n s =
           s\<lparr>localStorage := Some (toDoLists s), shownLists := Some (toDoLists s)\<rparr>
       \<and> deleteToDoList i s =
           s\<lparr>localStorage := Some (toDoLists s), shownLists := Some (toDoLists s)\<rparr>
       \<and> toggleToDoList i s =
           s\<lparr>localStorage := Some (toDoLists s), shownLists := Some (toDoLists s)\<rparr>"
proof -
  have m: "map_dated (\<lambda>l. list_id l = i)
             (\<lambda>d l. l\<lparr>lastRenamed := Some (toJSON d), name := n\<rparr>) (toDoLists s) (clock s)
           = (toDoLists s, clock s)"
    using assms by (simp add: map_dated_none)
  have f: "filter (\<lambda>l. list_id l \<noteq> i) (toDoLists s) = toDoLists s"
    using assms by (simp add: filter_id_conv)
  have t: "map (\<lambda>l. if list_id l = i then l\<lparr>list_done := js_not (list_done l)\<rparr> else l)
             (toDoLists s) = toDoLists s"
    using assms by (simp add: map_idI)
  show ?thesis
    by (simp add: updateToDoList_def deleteToDoList_def toggleToDoList_def m f t
        store_lists_def updateView_lists_def)
qed

text \<open>One list with identifier 1, and the operations called with identifier 2.\<close>

theorem unknown_id_is_no_op_witness:
  "toDoLists (updateToDoList 2 ''Errands'' (VanillaToDoListsModel
        (Some [example_list 1 ''Groceries'' (JBool False) []]) example_clock)) =
       [example_list 1 ''Groceries'' (JBool False) []]
   \<and> toDoLists (deleteToDoList 2 (VanillaToDoListsModel
        (Some [example_list 1 ''Groceries'' (JBool False) []]) example_clock)) =
       [example_list 1 ''Groceries'' (JBool False) []]
   \<and> toDoLists (toggleToDoList 2 (VanillaToDoListsModel
        (Some [example_list 1 ''Groceries'' (JBool False) []]) example_clock)) =
       [example_list 1 ''Groceries'' (JBool False) []]"
proof -
  have h: "\<forall>l\<in>set (toDoLists (VanillaToDoListsModel
        (Some [example_list 1 ''Groceries'' (JBool False) []]) example_clock)). list_id l \<noteq> 2"
    by (simp add: VanillaToDoListsModel_def load_def example_list_def)
  show ?thesis
    using unknown_id_is_no_op [OF h, of "''Errands''"]
    by (simp add: VanillaToDoListsModel_def load_def)
qed

section \<open>Clearing, toggling and records that share an identifier\<close>

text \<open>
  Claim C2, as stated: clearing removes exactly the records whose \<^verbatim>\<open>done\<close> is true and
  keeps all others. This fails for a list that has no \<^verbatim>\<open>done\<close> field: its flag is not
  true, and \<^verbatim>\<open>clearToDoLists\<close> removes it, because the filter keeps only
  \<^verbatim>\<open>done === false\<close>.
\<close>

theorem clearDone_counterexample:
  "list_done (example_list 1 ''a'' JUndefined []) \<noteq> JBool True
   \<and> toDoLists (clearToDoLists
        (VanillaToDoListsModel (Some [example_list 1 ''a'' JUndefined []]) example_clock)) = []"
  by (simp add: clearToDoLists_def store_lists_def updateView_lists_def
      VanillaToDoListsModel_def load_def example_list_def)

text \<open>
  Claim C2, amended: \<^verbatim>\<open>clearToDoLists\<close> keeps exactly the lists whose \<^verbatim>\<open>done\<close> is strictly
  false, in their order, and removes every other list; where every \<^verbatim>\<open>done\<close> is a
  boolean, the lists removed are exactly those whose \<^verbatim>\<open>done\<close> is true. The same holds
  for \<^verbatim>\<open>clearToDoList\<close> and the items of a model in any state it can reach.
\<close>

theorem clearDone_keeps_strictly_false:
  "toDoLists (clearToDoLists s) = filter (\<lambda>l. list_done l = JBool False) (toDoLists s)
   \<and> subseq (toDoLists (clearToDoLists s)) (toDoLists s)
   \<and> ((\<forall>l\<in>set (toDoLists s). list_done l = JBool True \<or> list_done l = JBool False) \<longrightarrow>
        toDoLists (clearToDoLists s) = filter (\<lambda>l. list_done l \<noteq> JBool True) (toDoLists s))
   \<and> (let t = fold perform ms (VanillaToDoListModel i st c) in
        get_items (clearToDoList t) = filter (\<lambda>it. item_done it = JBool False) (get_items t)
        \<and> subseq (get_items (clearToDoList t)) (get_items t)
        \<and> ((\<forall>it\<in>set (get_items t). item_done it = JBool True \<or> item_done it = JBool False) \<longrightarrow>
             get_items (clearToDoList t) = filter (\<lambda>it. item_done it \<noteq> JBool True) (get_items t)))"
proof -
  have a: "toDoLists (clearToDoLists s) = filter (\<lambda>l. list_done l = JBool False) (toDoLists s)"
    by (simp add: clearToDoLists_def store_lists_def updateView_lists_def)
  have b: "get_items (clearToDoList (fold perform ms (VanillaToDoListModel i st c))) =
           filter (\<lambda>it. item_done it = JBool False)
             (get_items (fold perform ms (VanillaToDoListModel i st c)))"
    by (rule clear_items [OF reachable_wf])
  show ?thesis
    unfolding Let_def a b
    by (simp add: filter_strictly_false [of _ list_done] filter_strictly_false [of _ item_done])
qed

text \<open>
  Four lists, one done and one without a \<^verbatim>\<open>done\<close> field: the two pending ones stay. Three
  items of which two are done: the pending one stays.
\<close>

theorem clearDone_keeps_strictly_false_witness:
  "toDoLists (clearToDoLists (VanillaToDoListsModel
      (Some [example_list 1 ''a'' (JBool False) [], example_list 2 ''b'' (JBool True) [],
             example_list 3 ''c'' JUndefined [], example_list 4 ''d'' (JBool False) []])
      example_clock)) =
     [example_list 1 ''a'' (JBool False) [], example_list 4 ''d'' (JBool False) []]
   \<and> get_items (clearToDoList (VanillaToDoListModel 1
        (Some [example_list 1 ''a'' (JBool False)
          [example_item 5 ''x'' (JBool True), example_item 6 ''y'' (JBool False),
           example_item 7 ''z'' (JBool True)]])
        example_clock)) = [example_item 6 ''y'' (JBool False)]"
proof -
  have g: "get_items (VanillaToDoListModel 1
        (Some [example_list 1 ''a'' (JBool False)
          [example_item 5 ''x'' (JBool True), example_item 6 ''y'' (JBool False),
           example_item 7 ''z'' (JBool True)]])
        example_clock) =
      [example_item 5 ''x'' (JBool True), example_item 6 ''y'' (JBool False),
       example_item 7 ''z'' (JBool True)]"
    by (simp add: VanillaToDoListModel_def load_def get_items_def example_list_def)
  show ?thesis
    using clearDone_keeps_strictly_false [where s = "VanillaToDoListsModel
      (Some [example_list 1 ''a'' (JBool False) [], example_list 2 ''b'' (JBool True) [],
             example_list 3 ''c'' JUndefined [], example_list 4 ''d'' (JBool False) []])
      example_clock" and ms = "[]" and i = 1 and st = "Some [example_list 1 ''a'' (JBool False)
          [example_item 5 ''x'' (JBool True), example_item 6 ''y'' (JBool False),
           example_item 7 ''z'' (JBool True)]]" and c = example_clock]
    unfolding Let_def example_list_def example_item_def
    by (simp add: g [unfolded example_list_def example_item_def]
        VanillaToDoListsModel_def load_def)
qed

text \<open>
  Claim C3, as stated: toggling all twice returns every \<^verbatim>\<open>done\<close> flag to its original
  value. This fails for a list that has no \<^verbatim>\<open>done\<close> field: \<^verbatim>\<open>!undefined\<close> is true and
  \<^verbatim>\<open>!true\<close> is false, so the flag ends as false.
\<close>

theorem toggleAll_twice_counterexample:
  "map list_done (toDoLists
     (VanillaToDoListsModel (Some [example_list 1 ''a'' JUndefined []]) example_clock)) =
     [JUndefined]
   \<and> map list_done (toDoLists (toggleAllToDoLists (toggleAllToDoLists
        (VanillaToDoListsModel (Some [example_list 1 ''a'' JUndefined []]) example_clock)))) =
       [JBool False]"
  by (simp add: toggleAllToDoLists_def store_lists_def updateView_lists_def
      VanillaToDoListsModel_def load_def example_list_def js_not_def)

text \<open>
  Claim C3, amended. For the model of the lists: \<^verbatim>\<open>toggleAllToDoLists\<close> replaces the
  \<^verbatim>\<open>done\<close> of every list by its negation \<^verbatim>\<open>!done\<close> and changes no other field; applied
  twice it leaves every list with the boolean value of its original \<^verbatim>\<open>done\<close>, so that a
  collection whose flags are all booleans is returned to what it was. For the model of
  one list, in any state it can reach: \<^verbatim>\<open>toggleAllToDoListItems\<close> does the same to the
  model's items, and applied twice it returns items whose flags are booleans to what
  they were; in the array of lists, after the two calls, every list with the model's
  identifier has these items and as \<^verbatim>\<open>lastUpdated\<close> the reading of the clock that the
  second call took for it, every other list is as it was, and the array is what the
  storage holds. The stamp \<^verbatim>\<open>lastUpdated\<close> is thus not returned to its original value.
\<close>

theorem toggleAll_twice:
  "toDoLists (toggleAllToDoLists s) =
     map (\<lambda>l. l\<lparr>list_done := js_not (list_done l)\<rparr>) (toDoLists s)
   \<and> toDoLists (toggleAllToDoLists (toggleAllToDoLists s)) =
       map (\<lambda>l. l\<lparr>list_done := JBool (truthy (list_done l))\<rparr>) (toDoLists s)
   \<and> ((\<forall>l\<in>set (toDoLists s). list_done l = JBool True \<or> list_done l = JBool False) \<longrightarrow>
        toDoLists (toggleAllToDoLists (toggleAllToDoLists s)) = toDoLists s)
   \<and> (let t = fold perform ms (VanillaToDoListModel i st c);
           t2 = toggleAllToDoListItems (toggleAllToDoListItems t) in
        get_items (toggleAllToDoListItems t) =
          map (\<lambda>it. it\<lparr>item_done := js_not (item_done it)\<rparr>) (get_items t)
        \<and> get_items t2 =
            map (\<lambda>it. it\<lparr>item_done := JBool (truthy (item_done it))\<rparr>) (get_items t)
        \<and> ((\<forall>it\<in>set (get_items t). item_done it = JBool True \<or> item_done it = JBool False) \<longrightarrow>
             get_items t2 = get_items t)
        \<and> length (toDoLists t2) = length (toDoLists t)
        \<and> (\<forall>k<length (toDoLists t).
             toDoLists t2 ! k =
               (if list_id (toDoLists t ! k) = i
                then (toDoLists t ! k)
                       \<lparr>lastUpdated :=
                          Some (toJSON (clock t
                            (length (filter (\<lambda>l. list_id l = i) (toDoLists t)) +
                             length (filter (\<lambda>l. list_id l = i) (take k (toDoLists t)))))),
                        items :=
                          map (\<lambda>it. it\<lparr>item_done := JBool (truthy (item_done it))\<rparr>)
                            (get_items t)\<rparr>
                else toDoLists t ! k))
        \<and> localStorage t2 = Some (toDoLists t2))"
proof -
  define t where "t = fold perform ms (VanillaToDoListModel i st c)"
  have w: "wf t" unfolding t_def by (rule reachable_wf)
  have ti: "toDoListId t = i" unfolding t_def by (rule reachable_toDoListId)
  have w': "wf (toggleAllToDoListItems t)"
    using perform_wf [OF w, of ToggleAll] by simp
  have a: "toDoLists (toggleAllToDoLists s) =
     map (\<lambda>l. l\<lparr>list_done := js_not (list_done l)\<rparr>) (toDoLists s)" for s
    by (simp add: toggleAllToDoLists_def store_lists_def updateView_lists_def)
  have b: "toDoLists (toggleAllToDoLists (toggleAllToDoLists s)) =
       map (\<lambda>l. l\<lparr>list_done := JBool (truthy (list_done l))\<rparr>) (toDoLists s)"
    by (simp add: a js_not_twice comp_def)
  have c: "(\<forall>l\<in>set (toDoLists s). list_done l = JBool True \<or> list_done l = JBool False) \<longrightarrow>
        map (\<lambda>l. l\<lparr>list_done := JBool (truthy (list_done l))\<rparr>) (toDoLists s) = toDoLists s"
    by (auto intro!: map_idI)
  have d: "get_items (toggleAllToDoListItems (toggleAllToDoListItems t)) =
            map (\<lambda>it. it\<lparr>item_done := JBool (truthy (item_done it))\<rparr>) (get_items t)"
    by (simp add: toggleAll_items [OF w'] toggleAll_items [OF w] js_not_twice comp_def)
  have e: "(\<forall>it\<in>set (get_items t). item_done it = JBool True \<or> item_done it = JBool False) \<longrightarrow>
        map (\<lambda>it. it\<lparr>item_done := JBool (truthy (item_done it))\<rparr>) (get_items t) = get_items t"
    by (auto intro!: map_idI)
  have n2: "new_items ToggleAll (perform ToggleAll t) =
            map (\<lambda>it. it\<lparr>item_done := JBool (truthy (item_done it))\<rparr>) (get_items t)"
    using d perform_get_items [OF w', of ToggleAll] by simp
  have len: "length (toDoLists (toggleAllToDoListItems (toggleAllToDoListItems t))) =
             length (toDoLists t)"
    using perform_length [OF w', of ToggleAll] perform_length [OF w, of ToggleAll] by simp
  have nth: "\<forall>k<length (toDoLists t).
             toDoLists (toggleAllToDoListItems (toggleAllToDoListItems t)) ! k =
               (if list_id (toDoLists t ! k) = i
                then (toDoLists t ! k)
                       \<lparr>lastUpdated :=
                          Some (toJSON (clock t
                            (length (filter (\<lambda>l. list_id l = i) (toDoLists t)) +
                             length (filter (\<lambda>l. list_id l = i) (take k (toDoLists t)))))),
                        items :=
                          map (\<lambda>it. it\<lparr>item_done := JBool (truthy (item_done it))\<rparr>)
                            (get_items t)\<rparr>
                else toDoLists t ! k)"
  proof (intro allI impI)
    fix k assume k: "k < length (toDoLists t)"
    show "toDoLists (toggleAllToDoListItems (toggleAllToDoListItems t)) ! k =
               (if list_id (toDoLists t ! k) = i
                then (toDoLists t ! k)
                       \<lparr>lastUpdated :=
                          Some (toJSON (clock t
                            (length (filter (\<lambda>l. list_id l = i) (toDoLists t)) +
                             length (filter (\<lambda>l. list_id l = i) (take k (toDoLists t)))))),
                        items :=
                          map (\<lambda>it. it\<lparr>item_done := JBool (truthy (item_done it))\<rparr>)
                            (get_items t)\<rparr>
                else toDoLists t ! k)"
      using perform_twice_nth [OF w k, of ToggleAll ToggleAll] n2
      by (simp add: ti reads_def add.commute)
  qed
  have sto: "localStorage (toggleAllToDoListItems (toggleAllToDoListItems t)) =
             Some (toDoLists (toggleAllToDoListItems (toggleAllToDoListItems t)))"
    using perform_localStorage [of ToggleAll "toggleAllToDoListItems t"] by simp
  show ?thesis
    unfolding Let_def t_def [symmetric]
    using a [of s] b c d e toggleAll_items [OF w] len nth sto by simp
qed

text \<open>
  Two lists with boolean flags come back as they were. A model for list 1, whose second
  item has no \<^verbatim>\<open>done\<close> field: after two calls that item is pending, list 1 carries the
  stamp of the second call, and list 2 is untouched.
\<close>

theorem toggleAll_twice_witness:
  "toDoLists (toggleAllToDoLists (toggleAllToDoLists (VanillaToDoListsModel
      (Some [example_list 1 ''a'' (JBool False) [], example_list 2 ''b'' (JBool True) []])
      example_clock))) =
     [example_list 1 ''a'' (JBool False) [], example_list 2 ''b'' (JBool True) []]
   \<and> toDoLists (toggleAllToDoListItems (toggleAllToDoListItems
        (fold perform [] (VanillaToDoListModel 1
          (Some [example_list 1 ''a'' (JBool False)
                   [example_item 5 ''x'' (JBool True), example_item 6 ''y'' JUndefined],
                 example_list 2 ''b'' (JBool True) [example_item 7 ''z'' (JBool True)]])
          example_clock)))) =
     [(example_list 1 ''a'' (JBool False)
         [example_item 5 ''x'' (JBool True), example_item 6 ''y'' (JBool False)])
        \<lparr>lastUpdated := Some (ISO 1001)\<rparr>,
      example_list 2 ''b'' (JBool True) [example_item 7 ''z'' (JBool True)]]"
  using toggleAll_twice [where s = "VanillaToDoListsModel
      (Some [example_list 1 ''a'' (JBool False) [], example_list 2 ''b'' (JBool True) []])
      example_clock" and ms = "[]" and i = 1 and st =
      "Some [example_list 1 ''a'' (JBool False)
                   [example_item 5 ''x'' (JBool True), example_item 6 ''y'' JUndefined],
             example_list 2 ''b'' (JBool True) [example_item 7 ''z'' (JBool True)]]"
      and c = example_clock]
  by (simp add: eval_defs)

text \<open>
  Claim C9, as stated: clearing twice yields the same collection as clearing once.
  This fails for \<^verbatim>\<open>clearToDoList\<close> of the model of one list: every call stamps the parent
  list's \<^verbatim>\<open>lastUpdated\<close> anew, so with a clock that advances the collection after two
  calls carries another stamp than after one.
\<close>

theorem clearDone_idempotent_counterexample:
  "map lastUpdated (toDoLists (clearToDoList
     (VanillaToDoListModel 1
        (Some [example_list 1 ''a'' (JBool False) [example_item 5 ''x'' (JBool True)]])
        example_clock))) = [Some (ISO 1000)]
   \<and> map lastUpdated (toDoLists (clearToDoList (clearToDoList
     (VanillaToDoListModel 1
        (Some [example_list 1 ''a'' (JBool False) [example_item 5 ''x'' (JBool True)]])
        example_clock)))) = [Some (ISO 1001)]"
  by (simp add: eval_defs)

text \<open>
  Claim C9, amended: \<^verbatim>\<open>clearToDoLists\<close> applied twice leaves the model of the lists (its
  array, the storage and what is shown) exactly as one application does, which keeps
  the lists whose \<^verbatim>\<open>done\<close> is strictly false. For the model of one list, in any state it
  can reach, \<^verbatim>\<open>clearToDoList\<close> applied twice leaves the same items as one application
  (the items whose \<^verbatim>\<open>done\<close> is strictly false), and the same array of lists except that
  every list with the model's identifier has as \<^verbatim>\<open>lastUpdated\<close> the reading of the clock
  that the second call took for it; that array is what the storage holds.
\<close>

theorem clearDone_idempotent:
  "clearToDoLists (clearToDoLists s) = clearToDoLists s
   \<and> toDoLists (clearToDoLists s) = filter (\<lambda>l. list_done l = JBool False) (toDoLists s)
   \<and> (let t = fold perform ms (VanillaToDoListModel i st c);
           t1 = clearToDoList t;
           t2 = clearToDoList t1 in
        get_items t1 = filter (\<lambda>it. item_done it = JBool False) (get_items t)
        \<and> get_items t2 = get_items t1
        \<and> length (toDoLists t2) = length (toDoLists t1)
        \<and> (\<forall>k<length (toDoLists t1).
             toDoLists t2 ! k =
               (if list_id (toDoLists t1 ! k) = i
                then (toDoLists t1 ! k)
                       \<lparr>lastUpdated :=
                          Some (toJSON (clock t
                            (length (filter (\<lambda>l. list_id l = i) (toDoLists t)) +
                             length (filter (\<lambda>l. list_id l = i) (take k (toDoLists t))))))\<rparr>
                else toDoLists t1 ! k))
        \<and> map (\<lambda>l. l\<lparr>lastUpdated := None\<rparr>) (toDoLists t2) =
            map (\<lambda>l. l\<lparr>lastUpdated := None\<rparr>) (toDoLists t1)
        \<and> localStorage t2 = Some (toDoLists t2))"
proof -
  define t where "t = fold perform ms (VanillaToDoListModel i st c)"
  define t1 where "t1 = clearToDoList t"
  have w: "wf t" unfolding t_def by (rule reachable_wf)
  have ti: "toDoListId t = i" unfolding t_def by (rule reachable_toDoListId)
  have p1: "t1 = perform Clear t" by (simp add: t1_def)
  have w1: "wf t1" unfolding p1 by (rule perform_wf [OF w])
  have t1i: "toDoListId t1 = i" unfolding p1 by (simp only: perform_toDoListId ti)
  have a: "clearToDoLists (clearToDoLists s) = clearToDoLists s"
    by (simp add: clearToDoLists_def store_lists_def updateView_lists_def)
  have a': "toDoLists (clearToDoLists s) =
            filter (\<lambda>l. list_done l = JBool False) (toDoLists s)"
    by (simp add: clearToDoLists_def store_lists_def updateView_lists_def)
  have g1: "get_items t1 = filter (\<lambda>it. item_done it = JBool False) (get_items t)"
    unfolding t1_def by (rule clear_items [OF w])
  have b: "get_items (clearToDoList t1) = get_items t1"
    by (simp add: clear_items [OF w1] g1)
  have n2: "new_items Clear t1 = get_items t1"
    using perform_get_items [OF w1, of Clear] b by simp
  have l1: "length (toDoLists t1) = length (toDoLists t)"
    unfolding p1 by (rule perform_length [OF w])
  have len: "length (toDoLists (clearToDoList t1)) = length (toDoLists t1)"
    using perform_length [OF w1, of Clear] by simp
  have ids: "map list_id (toDoLists t1) = map list_id (toDoLists t)"
    unfolding p1 by (rule perform_ids [OF w])
  have c1: "clock t1 = (\<lambda>n. clock t (n + length (filter (\<lambda>l. list_id l = i) (toDoLists t))))"
    using perform_clock [OF w, of Clear] by (simp add: t1_def ti reads_def)
  have nth: "\<forall>k<length (toDoLists t1).
             toDoLists (clearToDoList t1) ! k =
               (if list_id (toDoLists t1 ! k) = i
                then (toDoLists t1 ! k)
                       \<lparr>lastUpdated :=
                          Some (toJSON (clock t
                            (length (filter (\<lambda>l. list_id l = i) (toDoLists t)) +
                             length (filter (\<lambda>l. list_id l = i) (take k (toDoLists t))))))\<rparr>
                else toDoLists t1 ! k)"
  proof (intro allI impI)
    fix k assume k1: "k < length (toDoLists t1)"
    then have k: "k < length (toDoLists t)" by (simp add: l1)
    have idk: "list_id (toDoLists t1 ! k) = list_id (toDoLists t ! k)"
      using ids k k1 by (metis nth_map)
    have it: "list_id (toDoLists t1 ! k) = i \<Longrightarrow> items (toDoLists t1 ! k) = get_items t1"
      using perform_nth [OF w k, of Clear] perform_get_items [OF w, of Clear] idk
      by (simp add: p1 ti)
    have "toDoLists (clearToDoList t1) ! k =
               (if list_id (toDoLists t1 ! k) = i
                then (toDoLists t1 ! k)
                       \<lparr>lastUpdated :=
                          Some (toJSON (clock t
                            (length (filter (\<lambda>l. list_id l = i) (toDoLists t)) +
                             length (filter (\<lambda>l. list_id l = i) (take k (toDoLists t)))))),
                        items := get_items t1\<rparr>
                else toDoLists t1 ! k)"
      using perform_nth [OF w1 k1, of Clear]
      by (simp add: t1i n2 c1 reads_def count_by_ids [OF ids, of i k] add.commute)
    also have "\<dots> =
               (if list_id (toDoLists t1 ! k) = i
                then (toDoLists t1 ! k)
                       \<lparr>lastUpdated :=
                          Some (toJSON (clock t
                            (length (filter (\<lambda>l. list_id l = i) (toDoLists t)) +
                             length (filter (\<lambda>l. list_id l = i) (take k (toDoLists t))))))\<rparr>
                else toDoLists t1 ! k)"
      using it by (cases "list_id (toDoLists t1 ! k) = i") simp_all
    finally show "toDoLists (clearToDoList t1) ! k =
               (if list_id (toDoLists t1 ! k) = i
                then (toDoLists t1 ! k)
                       \<lparr>lastUpdated :=
                          Some (toJSON (clock t
                            (length (filter (\<lambda>l. list_id l = i) (toDoLists t)) +
                             length (filter (\<lambda>l. list_id l = i) (take k (toDoLists t))))))\<rparr>
                else toDoLists t1 ! k)"
      by simp
  qed
  have er: "map (\<lambda>l. l\<lparr>lastUpdated := None\<rparr>) (toDoLists (clearToDoList t1)) =
            map (\<lambda>l. l\<lparr>lastUpdated := None\<rparr>) (toDoLists t1)"
  proof (rule nth_equalityI)
    show "length (map (\<lambda>l. l\<lparr>lastUpdated := None\<rparr>) (toDoLists (clearToDoList t1))) =
          length (map (\<lambda>l. l\<lparr>lastUpdated := None\<rparr>) (toDoLists t1))"
      by (simp add: len)
  next
    fix k assume "k < length (map (\<lambda>l. l\<lparr>lastUpdated := None\<rparr>) (toDoLists (clearToDoList t1)))"
    then have k1: "k < length (toDoLists t1)" by (simp add: len)
    with nth show "map (\<lambda>l. l\<lparr>lastUpdated := None\<rparr>) (toDoLists (clearToDoList t1)) ! k =
                   map (\<lambda>l. l\<lparr>lastUpdated := None\<rparr>) (toDoLists t1) ! k"
      by (simp add: len)
  qed
  have sto: "localStorage (clearToDoList t1) = Some (toDoLists (clearToDoList t1))"
    using perform_localStorage [of Clear t1] by simp
  show ?thesis
    unfolding Let_def t_def [symmetric] t1_def [symmetric]
    using a a' g1 b len nth er sto by simp
qed

text \<open>
  A done and a pending list; and a model for list 1 with a done and a pending item,
  beside a list 2 that stays as it is.
\<close>

theorem clearDone_idempotent_witness:
  "toDoLists (clearToDoLists (clearToDoLists (VanillaToDoListsModel
      (Some [example_list 1 ''a'' (JBool True) [], example_list 2 ''b'' (JBool False) []])
      example_clock))) = [example_list 2 ''b'' (JBool False) []]
   \<and> toDoLists (clearToDoList (clearToDoList (fold perform []
        (VanillaToDoListModel 1
          (Some [example_list 1 ''a'' (JBool False)
                   [example_item 5 ''x'' (JBool True), example_item 6 ''y'' (JBool False)],
                 example_list 2 ''b'' (JBool True) [example_item 7 ''z'' (JBool True)]])
          example_clock)))) =
     [(example_list 1 ''a'' (JBool False) [example_item 6 ''y'' (JBool False)])
        \<lparr>lastUpdated := Some (ISO 1001)\<rparr>,
      example_list 2 ''b'' (JBool True) [example_item 7 ''z'' (JBool True)]]"
  using clearDone_idempotent [where s =
      "VanillaToDoListsModel
        (Some [example_list 1 ''a'' (JBool True) [], example_list 2 ''b'' (JBool False) []])
        example_clock" and ms = "[]" and i = 1 and st =
      "Some [example_list 1 ''a'' (JBool False)
                   [example_item 5 ''x'' (JBool True), example_item 6 ''y'' (JBool False)],
             example_list 2 ''b'' (JBool True) [example_item 7 ''z'' (JBool True)]]"
      and c = example_clock]
  by (simp add: eval_defs)

text \<open>
  Claim C10: where several lists have the identifier given, \<^verbatim>\<open>updateToDoList\<close> renames
  every one of them (each with its own reading of the clock as \<^verbatim>\<open>lastRenamed\<close>) and
  leaves the other lists as they are, \<^verbatim>\<open>toggleToDoList\<close> negates the \<^verbatim>\<open>done\<close> of every
  one of them, and \<^verbatim>\<open>deleteToDoList\<close> removes every one of them and nothing else. In any
  state the model of one list can reach, the same holds of its items:
  \<^verbatim>\<open>updateToDoListItem\<close> gives the new text (and its own reading of the clock) to every
  item that has the identifier given, \<^verbatim>\<open>toggleToDoListItem\<close> negates the \<^verbatim>\<open>done\<close> of
  every such item, and \<^verbatim>\<open>deleteToDoListItem\<close> removes every such item and nothing else.
\<close>

theorem same_id_all_affected:
  "length (toDoLists (updateToDoList i n s)) = length (toDoLists s)
   \<and> (\<forall>k<length (toDoLists s).
        toDoLists (updateToDoList i n s) ! k =
          (if list_id (toDoLists s ! k) = i
           then (toDoLists s ! k)
                  \<lparr>lastRenamed :=
                     Some (toJSON (clock s
                       (length (filter (\<lambda>l. list_id l = i) (take k (toDoLists s)))))),
                   name := n\<rparr>
           else toDoLists s ! k))
   \<and> length (toDoLists (toggleToDoList i s)) = length (toDoLists s)
   \<and> (\<forall>k<length (toDoLists s).
        toDoLists (toggleToDoList i s) ! k =
          (if list_id (toDoLists s ! k) = i
           then (toDoLists s ! k)\<lparr>list_done := js_not (list_done (toDoLists s ! k))\<rparr>
           else toDoLists s ! k))
   \<and> toDoLists (deleteToDoList i s) = filter (\<lambda>l. list_id l \<noteq> i) (toDoLists s)
   \<and> (\<forall>l\<in>set (toDoLists (deleteToDoList i s)). list_id l \<noteq> i)
   \<and> (let t = fold perform ms (VanillaToDoListModel i' st c) in
        length (get_items (updateToDoListItem j x t)) = length (get_items t)
        \<and> (\<forall>k<length (get_items t).
             get_items (updateToDoListItem j x t) ! k =
               (if item_id (get_items t ! k) = j
                then (get_items t ! k)
                       \<lparr>item_lastUpdated :=
                          Some (toJSON (clock t
                            (length (filter (\<lambda>it. item_id it = j) (take k (get_items t)))))),
                        item_text := x\<rparr>
                else get_items t ! k))
        \<and> length (get_items (toggleToDoListItem j t)) = length (get_items t)
        \<and> (\<forall>k<length (get_items t).
             get_items (toggleToDoListItem j t) ! k =
               (if item_id (get_items t ! k) = j
                then (get_items t ! k)\<lparr>item_done := js_not (item_done (get_items t ! k))\<rparr>
                else get_items t ! k))
        \<and> get_items (deleteToDoListItem j t) = filter (\<lambda>it. item_id it \<noteq> j) (get_items t)
        \<and> (\<forall>it\<in>set (get_items (deleteToDoListItem j t)). item_id it \<noteq> j))"
proof -
  have u: "toDoLists (updateToDoList i n s) =
           fst (map_dated (\<lambda>l. list_id l = i)
             (\<lambda>d l. l\<lparr>lastRenamed := Some (toJSON d), name := n\<rparr>) (toDoLists s) (clock s))"
    by (simp add: updateToDoList_def case_prod_unfold store_lists_def updateView_lists_def)
  have g: "toDoLists (toggleToDoList i s) =
           map (\<lambda>l. if list_id l = i then l\<lparr>list_done := js_not (list_done l)\<rparr> else l)
             (toDoLists s)"
    by (simp add: toggleToDoList_def store_lists_def updateView_lists_def)
  have d: "toDoLists (deleteToDoList i s) = filter (\<lambda>l. list_id l \<noteq> i) (toDoLists s)"
    by (simp add: deleteToDoList_def store_lists_def updateView_lists_def)
  show ?thesis
    unfolding Let_def
    by (simp add: u g d map_dated_length map_dated_nth update_items [OF reachable_wf]
        toggle_items [OF reachable_wf] delete_items [OF reachable_wf])
qed

text \<open>
  Three lists of which the first and the third have identifier 7, and a list of three
  items of which the first and the third have identifier 5.
\<close>

theorem same_id_all_affected_witness:
  "toDoLists (updateToDoList 7 ''z'' (VanillaToDoListsModel
      (Some [example_list 7 ''a'' (JBool False) [], example_list 8 ''b'' (JBool False) [],
             example_list 7 ''c'' (JBool True) []]) example_clock)) =
     [(example_list 7 ''z'' (JBool False) [])\<lparr>lastRenamed := Some (ISO 1000)\<rparr>,
      example_list 8 ''b'' (JBool False) [],
      (example_list 7 ''z'' (JBool True) [])\<lparr>lastRenamed := Some (ISO 1001)\<rparr>]
   \<and> toDoLists (toggleToDoList 7 (VanillaToDoListsModel
      (Some [example_list 7 ''a'' (JBool False) [], example_list 8 ''b'' (JBool False) [],
             example_list 7 ''c'' (JBool True) []]) example_clock)) =
     [example_list 7 ''a'' (JBool True) [], example_list 8 ''b'' (JBool False) [],
      example_list 7 ''c'' (JBool False) []]
   \<and> toDoLists (deleteToDoList 7 (VanillaToDoListsModel
      (Some [example_list 7 ''a'' (JBool False) [], example_list 8 ''b'' (JBool False) [],
             example_list 7 ''c'' (JBool True) []]) example_clock)) =
     [example_list 8 ''b'' (JBool False) []]
   \<and> get_items (updateToDoListItem 5 ''w'' (fold perform []
        (VanillaToDoListModel 1
          (Some [example_list 1 ''a'' (JBool False)
            [example_item 5 ''x'' (JBool True), example_item 6 ''v'' (JBool False),
             example_item 5 ''y'' (JBool False)]])
          example_clock))) =
     [(example_item 5 ''w'' (JBool True))\<lparr>item_lastUpdated := Some (ISO 1000)\<rparr>,
      example_item 6 ''v'' (JBool False),
      (example_item 5 ''w'' (JBool False))\<lparr>item_lastUpdated := Some (ISO 1001)\<rparr>]
   \<and> get_items (toggleToDoListItem 5 (fold perform []
        (VanillaToDoListModel 1
          (Some [example_list 1 ''a'' (JBool False)
            [example_item 5 ''x'' (JBool True), example_item 6 ''v'' (JBool False),
             example_item 5 ''y'' (JBool False)]])
          example_clock))) =
     [example_item 5 ''x'' (JBool False), example_item 6 ''v'' (JBool False),
      example_item 5 ''y'' (JBool True)]
   \<and> get_items (deleteToDoListItem 5 (fold perform []
        (VanillaToDoListModel 1
          (Some [example_list 1 ''a'' (JBool False)
            [example_item 5 ''x'' (JBool True), example_item 6 ''v'' (JBool False),
             example_item 5 ''y'' (JBool False)]])
          example_clock))) =
     [example_item 6 ''v'' (JBool False)]"
  using same_id_all_affected [where i = 7 and n = "''z''" and s =
      "VanillaToDoListsModel
        (Some [example_list 7 ''a'' (JBool False) [], example_list 8 ''b'' (JBool False) [],
               example_list 7 ''c'' (JBool True) []]) example_clock"
      and j = 5 and x = "''w''" and ms = "[]" and i' = 1 and st =
      "Some [example_list 1 ''a'' (JBool False)
            [example_item 5 ''x'' (JBool True), example_item 6 ''v'' (JBool False),
             example_item 5 ''y'' (JBool False)]]"
      and c = example_clock]
  by (simp add: eval_defs)

section \<open>The model of one list and the stored collection\<close>

text \<open>
  Claim C6: when no stored list has the identifier given to the constructor,
  \<^verbatim>\<open>this.toDoList\<close> is an object with empty items and no identifier (the view then shows
  the invalid-identifier paragraph); and after any sequence of item mutations the
  object still has no identifier, the array of lists is the one loaded, what the
  storage holds loads to that same array, and a model constructed anew from the storage
  again has empty items: the mutations are lost.
\<close>

theorem unknown_list_id_mutations_lost:
  assumes "\<forall>l\<in>set (load st). list_id l \<noteq> i"
  shows "deref (VanillaToDoListModel i st c) = ItemsOnly []
       \<and> obj_id (deref (VanillaToDoListModel i st c)) = None
       \<and> placeholder (render_list hash (deref (VanillaToDoListModel i st c))) =
           Some ''Invalid ID! Your entries won't be stored!''
       \<and> obj_id (deref (fold perform ms (VanillaToDoListModel i st c))) = None
       \<and> toDoLists (fold perform ms (VanillaToDoListModel i st c)) = load st
       \<and> load (localStorage (fold perform ms (VanillaToDoListModel i st c))) = load st
       \<and> deref (VanillaToDoListModel i
            (localStorage (fold perform ms (VanillaToDoListModel i st c))) c') = ItemsOnly []"
proof -
  let ?s = "VanillaToDoListModel i st c"
  have f: "toDoList ?s = Fresh []" by (rule new_unknown_id [OF assms])
  have d: "deref ?s = ItemsOnly []" by (simp add: deref_def f)
  have l0: "toDoLists ?s = load st" and s0: "localStorage ?s = st"
    by (simp_all add: VanillaToDoListModel_def)
  note r = fold_perform_fresh [OF wf_new f, of ms]
  from r obtain its' where f': "toDoList (fold perform ms ?s) = Fresh its'" by blast
  from r have l: "toDoLists (fold perform ms ?s) = load st" by (simp add: l0)
  from r have p: "load (localStorage (fold perform ms ?s)) = load st"
    by (simp add: l0 s0)
  have a: "\<forall>l\<in>set (load (localStorage (fold perform ms ?s))). list_id l \<noteq> i"
    using assms by (simp only: p)
  have d': "deref (VanillaToDoListModel i (localStorage (fold perform ms ?s)) c') = ItemsOnly []"
    by (simp add: deref_def new_unknown_id [OF a])
  have r0: "placeholder (render_list hash (deref ?s)) =
            Some ''Invalid ID! Your entries won't be stored!''"
    by (simp add: d render_list_def)
  have o: "obj_id (deref (fold perform ms ?s)) = None"
    by (simp add: deref_def f')
  show ?thesis
    using d r0 o l p d' by simp
qed

text \<open>
  One list with identifier 1 is stored and the model is constructed for identifier 2:
  an item created and toggled is in the model's own items, and the storage still holds
  the one list with no items.
\<close>

theorem unknown_list_id_mutations_lost_witness:
  "deref (VanillaToDoListModel 2 (Some [example_list 1 ''a'' (JBool False) []]) example_clock) =
     ItemsOnly []
   \<and> get_items (fold perform [Create ''x'', Toggle 1000]
        (VanillaToDoListModel 2 (Some [example_list 1 ''a'' (JBool False) []]) example_clock)) =
       [\<lparr>item_id = 1000, item_created = ISO 1000, item_lastUpdated = None,
         item_text = ''x'', item_done = JBool True\<rparr>]
   \<and> localStorage (fold perform [Create ''x'', Toggle 1000]
        (VanillaToDoListModel 2 (Some [example_list 1 ''a'' (JBool False) []]) example_clock)) =
       Some [example_list 1 ''a'' (JBool False) []]"
proof -
  have h: "\<forall>l\<in>set (load (Some [example_list 1 ''a'' (JBool False) []])). list_id l \<noteq> 2"
    by (simp add: load_def example_list_def)
  show ?thesis
    using unknown_list_id_mutations_lost [OF h, of example_clock "[]" "[Create ''x'', Toggle 1000]"
        example_clock]
    by (simp add: eval_defs)
qed

text \<open>
  Claim C7, as stated: an item mutation stamps and rewrites the parent list and leaves
  all other lists of the collection unchanged. This fails where another list shares
  the parent's identifier: the model is built for identifier 7 and refers to the first
  list; toggling its item also gives the third list, which has identifier 7 too, the
  parent's items in place of its own, and a stamp.
\<close>

theorem item_mutation_write_back_counterexample:
  "toDoList (VanillaToDoListModel 7
        (Some [example_list 7 ''a'' (JBool False) [example_item 1 ''x'' (JBool False)],
               example_list 8 ''b'' (JBool False) [],
               example_list 7 ''c'' (JBool True) [example_item 2 ''y'' (JBool False)]])
        example_clock) = Stored 0
   \<and> toDoLists (VanillaToDoListModel 7
        (Some [example_list 7 ''a'' (JBool False) [example_item 1 ''x'' (JBool False)],
               example_list 8 ''b'' (JBool False) [],
               example_list 7 ''c'' (JBool True) [example_item 2 ''y'' (JBool False)]])
        example_clock) ! 2 =
       example_list 7 ''c'' (JBool True) [example_item 2 ''y'' (JBool False)]
   \<and> toDoLists (toggleToDoListItem 1 (VanillaToDoListModel 7
        (Some [example_list 7 ''a'' (JBool False) [example_item 1 ''x'' (JBool False)],
               example_list 8 ''b'' (JBool False) [],
               example_list 7 ''c'' (JBool True) [example_item 2 ''y'' (JBool False)]])
        example_clock)) ! 2 =
       (example_list 7 ''c'' (JBool True) [example_item 1 ''x'' (JBool True)])
         \<lparr>lastUpdated := Some (ISO 1001)\<rparr>"
  by (simp add: eval_defs)

text \<open>
  Claim C7, amended: in any state the model of one list can reach, each of the six item
  mutations leaves the array of lists with the same length; every list that has the
  model's identifier (the parent, and any other list that shares its identifier) keeps
  its identifier, creation stamp, rename stamp, name and \<^verbatim>\<open>done\<close>, gets as
  \<^verbatim>\<open>lastUpdated\<close> a reading of the clock taken by the call (the readings that follow
  those the mutation took for itself, one per such list in order) and as items the
  items the model now has; every list with another identifier is unchanged; and the
  new array is what the storage holds.
\<close>

theorem item_mutation_write_back:
  "let s = fold perform ms (VanillaToDoListModel i st c); s' = perform m s in
   length (toDoLists s') = length (toDoLists s)
   \<and> (\<forall>k<length (toDoLists s).
        toDoLists s' ! k =
          (if list_id (toDoLists s ! k) = i
           then (toDoLists s ! k)
                  \<lparr>lastUpdated :=
                     Some (toJSON (clock s
                       (reads m s +
                        length (filter (\<lambda>l. list_id l = i) (take k (toDoLists s)))))),
                   items := get_items s'\<rparr>
           else toDoLists s ! k))
   \<and> get_items s' = new_items m s
   \<and> localStorage s' = Some (toDoLists s')"
proof -
  define s where "s = fold perform ms (VanillaToDoListModel i st c)"
  have w: "wf s" unfolding s_def by (rule reachable_wf)
  have k: "toDoListId s = i" unfolding s_def by (rule reachable_toDoListId)
  have n: "\<forall>n<length (toDoLists s).
          toDoLists (perform m s) ! n =
            (if list_id (toDoLists s ! n) = i
             then (toDoLists s ! n)
                    \<lparr>lastUpdated :=
                       Some (toJSON (clock s
                         (reads m s + length (filter (\<lambda>l. list_id l = i) (take n (toDoLists s)))))),
                     items := get_items (perform m s)\<rparr>
             else toDoLists s ! n)"
    using perform_nth [OF w, of _ m] by (simp add: k perform_get_items [OF w])
  show ?thesis
    unfolding Let_def s_def [symmetric]
    using n perform_length [OF w, of m] perform_get_items [OF w, of m]
      perform_localStorage [of m s]
    by simp
qed

text \<open>
  Three lists of which the first and the third have identifier 7: toggling the item of
  the first stamps both with successive readings and gives both the new items, and the
  list with identifier 8 keeps its own item. Two lists with different identifiers:
  creating an item in the second leaves the first as it is.
\<close>

theorem item_mutation_write_back_witness:
  "toDoLists (perform (Toggle 1) (fold perform []
     (VanillaToDoListModel 7
        (Some [example_list 7 ''a'' (JBool False) [example_item 1 ''x'' (JBool False)],
               example_list 8 ''b'' (JBool False) [example_item 3 ''z'' (JBool False)],
               example_list 7 ''c'' (JBool True) []])
        example_clock))) =
   [(example_list 7 ''a'' (JBool False) [example_item 1 ''x'' (JBool True)])
       \<lparr>lastUpdated := Some (ISO 1000)\<rparr>,
    example_list 8 ''b'' (JBool False) [example_item 3 ''z'' (JBool False)],
    (example_list 7 ''c'' (JBool True) [example_item 1 ''x'' (JBool True)])
       \<lparr>lastUpdated := Some (ISO 1001)\<rparr>]
   \<and> toDoLists (perform (Create ''n'') (fold perform []
     (VanillaToDoListModel 8
        (Some [example_list 7 ''a'' (JBool False) [example_item 1 ''x'' (JBool False)],
               example_list 8 ''b'' (JBool False) []])
        example_clock))) =
   [example_list 7 ''a'' (JBool False) [example_item 1 ''x'' (JBool False)],
    (example_list 8 ''b'' (JBool False)
       [\<lparr>item_id = 1000, item_created = ISO 1000, item_lastUpdated = None,
         item_text = ''n'', item_done = JBool False\<rparr>])
       \<lparr>lastUpdated := Some (ISO 1001)\<rparr>]"
  using item_mutation_write_back [where ms = "[]" and i = 7 and st =
      "Some [example_list 7 ''a'' (JBool False) [example_item 1 ''x'' (JBool False)],
               example_list 8 ''b'' (JBool False) [example_item 3 ''z'' (JBool False)],
               example_list 7 ''c'' (JBool True) []]" and c = example_clock and m = "Toggle 1"]
  by (simp add: eval_defs)

end
